theory Spec2Isabelle
  imports Complex_Main "HOL-Library.Word"
begin

section \<open>Values, statements and errors of the data-access layer (src/lib/db.ts)\<close>

text \<open>
  The module modelled is the first one of src/lib/db.ts (lines 1 to 229): the lazily
  initialized singleton client, the facade \<^verbatim>\<open>db\<close> with \<^verbatim>\<open>all\<close>, \<^verbatim>\<open>get\<close>,
  \<^verbatim>\<open>run\<close> and \<^verbatim>\<open>transaction\<close>, and the scoped facade a transaction body is given.
  Every \<^verbatim>\<open>throw\<close> and every rejected promise is a value \<open>Inl e\<close>; the module variables
  and the engine are threaded through as a state.
\<close>

text \<open>
  \<^verbatim>\<open>type SqlParams = Array<null | string | number | Uint8Array | bigint | boolean>\<close>.
  The layer never computes with a parameter: it only hands it on, so a JavaScript number
  is carried as the real number it denotes.
\<close>

datatype sql_value =
    Null
  | Str string
  | Num real
  | Bytes "8 word list"
  | BigInt int
  | Bool bool

text \<open>
  What \<^verbatim>\<open>client.execute\<close> is given: either a bare SQL string
  (\<^verbatim>\<open>client.execute("BEGIN")\<close>) or a text together with its positional arguments
  (\<^verbatim>\<open>client.execute({ sql, args: params })\<close>, \<^verbatim>\<open>client.execute(sql, args)\<close>).
\<close>

datatype in_statement =
    Text string
  | Stmt string "sql_value list"

fun stmt_sql :: "in_statement \<Rightarrow> string" where
  "stmt_sql (Text s) = s"
| "stmt_sql (Stmt s ps) = s"

fun stmt_args :: "in_statement \<Rightarrow> sql_value list" where
  "stmt_args (Text s) = []"
| "stmt_args (Stmt s ps) = ps"

text \<open>A row of a \<^verbatim>\<open>ResultSet\<close>: named columns with engine-native values.\<close>

type_synonym row = "(string \<times> sql_value) list"

text \<open>
  What JavaScript can throw: an instance of \<^verbatim>\<open>Error\<close> with its message, or any
  other value (the commit handler of \<^verbatim>\<open>transaction\<close> tests
  \<^verbatim>\<open>commitError instanceof Error\<close>).
\<close>

datatype thrown =
    Error string
  | NonError string

fun instanceof_Error :: "thrown \<Rightarrow> bool" where
  "instanceof_Error (Error m) = True"
| "instanceof_Error (NonError v) = False"

fun message :: "thrown \<Rightarrow> string" where
  "message (Error m) = m"
| "message (NonError v) = []"

text \<open>\<^verbatim>\<open>String.prototype.includes\<close>: the argument occurs as a contiguous substring.\<close>

fun starts_with :: "string \<Rightarrow> string \<Rightarrow> bool" where
  "starts_with s [] = True"
| "starts_with [] (c # cs) = False"
| "starts_with (x # xs) (c # cs) = (x = c \<and> starts_with xs cs)"

fun includes_str :: "string \<Rightarrow> string \<Rightarrow> bool" where
  "includes_str [] sub = (sub = [])"
| "includes_str (x # xs) sub = (starts_with (x # xs) sub \<or> includes_str xs sub)"

section \<open>The process: module variables, the engine behind the client, the event loop\<close>

text \<open>
  A promise is pending or settled. \<^verbatim>\<open>initializationPromise\<close> holds
  \<^verbatim>\<open>null\<close> (\<open>None\<close>) or a promise.
\<close>

datatype promise =
    Pending
  | Fulfilled
  | Rejected thrown

text \<open>
  The state of one Node process, as far as the layer touches it:
  \<^item> \<open>libsqlClient\<close>: whether the module variable holds a client (\<^verbatim>\<open>null\<close> is \<open>False\<close>);
  \<^item> \<open>initializationPromise\<close>: the module variable of that name;
  \<^item> \<open>store\<close>: the state of the SQL engine behind the client (connection and data);
  \<^item> \<open>delivered\<close>: every statement handed to \<^verbatim>\<open>client.execute\<close>, oldest first;
  \<^item> \<open>init_rest\<close>: the statements the suspended \<^verbatim>\<open>initializeDatabase\<close> has still to
    await, while its promise is pending;
  \<^item> \<open>init_calls\<close>: how often \<^verbatim>\<open>initializeDatabase\<close> has been called;
  \<^item> \<open>init_delivered\<close>: the statements \<^verbatim>\<open>initializeDatabase\<close> itself has executed;
  \<^item> \<open>waiting\<close>: the callers suspended in \<^verbatim>\<open>await initializationPromise\<close>, each with
    the statement its facade operation executes first once it has the client;
  \<^item> \<open>outcome\<close>: what \<^verbatim>\<open>getInitializedClient\<close> gave each caller that has resumed.
\<close>

record 's process =
  libsqlClient :: bool
  initializationPromise :: "promise option"
  store :: 's
  delivered :: "in_statement list"
  init_rest :: "in_statement list"
  init_calls :: nat
  init_delivered :: "in_statement list"
  waiting :: "(nat \<times> in_statement) list"
  outcome :: "(nat \<times> (thrown + unit)) list"

text \<open>
  What the layer takes from outside the repository:
  \<^item> \<open>execute\<close>: the engine behind \<^verbatim>\<open>client.execute\<close>; a statement either fails with
    what it throws or gives rows, and changes the engine's state;
  \<^item> \<open>createClient\<close>: \<open>Some e\<close> when \<^verbatim>\<open>createClient({ url })\<close> throws \<open>e\<close>;
  \<^item> \<open>adminHashed\<close>: the value of \<^verbatim>\<open>hashSync("admin123", 10)\<close> in this process (bcrypt
    salts at random, so two processes get two values).
\<close>

record 's env =
  execute :: "in_statement \<Rightarrow> 's \<Rightarrow> (thrown + row list) \<times> 's"
  createClient :: "thrown option"
  adminHashed :: string

text \<open>\<^verbatim>\<open>await client.execute(stmt)\<close>: the engine runs the statement; the call is recorded.\<close>

definition client_execute ::
  "'s env \<Rightarrow> in_statement \<Rightarrow> 's process \<Rightarrow> (thrown + row list) \<times> 's process" where
  "client_execute env stmt p =
     (case execute env stmt (store p) of
        (r, s') \<Rightarrow> (r, p\<lparr>store := s', delivered := delivered p @ [stmt]\<rparr>))"

section \<open>The transaction-scoped facade \<^verbatim>\<open>txDb\<close> (db.ts, lines 187-202)\<close>

definition txDb_all ::
  "'s env \<Rightarrow> string \<Rightarrow> sql_value list \<Rightarrow> 's process \<Rightarrow> (thrown + row list) \<times> 's process" where
  "txDb_all env sql params p =
     (case client_execute env (Stmt sql params) p of
        (Inl e, p') \<Rightarrow> (Inl e, p')
      | (Inr rows, p') \<Rightarrow> (Inr rows, p'))"

text \<open>\<^verbatim>\<open>(result.rows[0] as U) ?? null\<close>: the first row, \<^verbatim>\<open>null\<close> (\<open>None\<close>) when there is none.\<close>

definition first_or_null :: "row list \<Rightarrow> row option" where
  "first_or_null rows = (case rows of [] \<Rightarrow> None | r # _ \<Rightarrow> Some r)"

definition txDb_get ::
  "'s env \<Rightarrow> string \<Rightarrow> sql_value list \<Rightarrow> 's process \<Rightarrow> (thrown + row option) \<times> 's process" where
  "txDb_get env sql params p =
     (case client_execute env (Stmt sql params) p of
        (Inl e, p') \<Rightarrow> (Inl e, p')
      | (Inr rows, p') \<Rightarrow> (Inr (first_or_null rows), p'))"

definition txDb_run ::
  "'s env \<Rightarrow> string \<Rightarrow> sql_value list \<Rightarrow> 's process \<Rightarrow> (thrown + unit) \<times> 's process" where
  "txDb_run env sql params p =
     (case client_execute env (Stmt sql params) p of
        (Inl e, p') \<Rightarrow> (Inl e, p')
      | (Inr rows, p') \<Rightarrow> (Inr (), p'))"

text \<open>
  What a call hands its caller in the stretch of code that makes it: the call throws, or
  it returns. A function declared \<^verbatim>\<open>async\<close> never throws at the call: whatever its
  body throws before its first \<^verbatim>\<open>await\<close> comes back as a promise that is already
  rejected.
\<close>

datatype 'v settled_promise =
    ResolvedWith 'v
  | RejectedWith thrown

datatype 'v call_outcome =
    Threw thrown
  | Returned "'v settled_promise"

text \<open>
  \<^verbatim>\<open>transaction: async (cb) => { throw new Error("Nested transactions not supported") }\<close>:
  the callback is not called and nothing is awaited; the arrow function is
  \<^verbatim>\<open>async\<close>, so the call returns a promise already rejected with the error. The
  function takes no process state because it has no effect on any.
\<close>

definition txDb_transaction :: "'cb \<Rightarrow> 'v call_outcome" where
  "txDb_transaction cb = Returned (RejectedWith (Error ''Nested transactions not supported''))"

text \<open>
  \<^verbatim>\<open>await\<close> of what a call handed over, as the awaiting code sees it: a rejected
  promise throws at the \<^verbatim>\<open>await\<close>, as a throwing call does at the call.
\<close>

definition await_outcome :: "'v call_outcome \<Rightarrow> thrown + 'v" where
  "await_outcome r =
     (case r of
        Threw e \<Rightarrow> Inl e
      | Returned (RejectedWith e) \<Rightarrow> Inl e
      | Returned (ResolvedWith v) \<Rightarrow> Inr v)"

section \<open>Transaction bodies\<close>

text \<open>
  The callback handed to \<^verbatim>\<open>transaction\<close> is any terminating JavaScript function of
  the scoped facade. What matters of it is the sequence of facade operations it awaits and
  how it goes on from each answer (a value, or an error it may catch or let through), until it
  returns a value or throws. \<open>TxAll\<close>, \<open>TxGet\<close> and \<open>TxRun\<close> are awaited calls.
  \<open>TxTransaction cb k\<close> calls \<^verbatim>\<open>tx.transaction(cb)\<close> and goes on with \<open>k\<close> from what
  the call handed over, which the body may await or not.
\<close>

datatype 'a body =
    Return 'a
  | Throw thrown
  | TxAll string "sql_value list" "thrown + row list \<Rightarrow> 'a body"
  | TxGet string "sql_value list" "thrown + row option \<Rightarrow> 'a body"
  | TxRun string "sql_value list" "thrown + unit \<Rightarrow> 'a body"
  | TxTransaction "'a body" "'a call_outcome \<Rightarrow> 'a body"

text \<open>\<^verbatim>\<open>await callback(txDb)\<close>: the body runs against the scoped facade.\<close>

primrec run_body :: "'s env \<Rightarrow> 'a body \<Rightarrow> 's process \<Rightarrow> (thrown + 'a) \<times> 's process" where
  "run_body env (Return v) p = (Inr v, p)"
| "run_body env (Throw e) p = (Inl e, p)"
| "run_body env (TxAll sql params k) p =
     (case txDb_all env sql params p of (r, p') \<Rightarrow> run_body env (k r) p')"
| "run_body env (TxGet sql params k) p =
     (case txDb_get env sql params p of (r, p') \<Rightarrow> run_body env (k r) p')"
| "run_body env (TxRun sql params k) p =
     (case txDb_run env sql params p of (r, p') \<Rightarrow> run_body env (k r) p')"
| "run_body env (TxTransaction cb k) p = run_body env (k (txDb_transaction cb)) p"

section \<open>\<^verbatim>\<open>db.transaction\<close> once it holds the client (db.ts, lines 184-224)\<close>

text \<open>The outer \<^verbatim>\<open>catch (error)\<close>: try \<^verbatim>\<open>ROLLBACK\<close>, ignore its failure, rethrow.\<close>

definition rollback_and_rethrow ::
  "'s env \<Rightarrow> thrown \<Rightarrow> 's process \<Rightarrow> (thrown + 'a) \<times> 's process" where
  "rollback_and_rethrow env error p =
     (case client_execute env (Text ''ROLLBACK'') p of
        (rollbackResult, p') \<Rightarrow> (Inl error, p'))"

text \<open>The test of the inner \<^verbatim>\<open>catch (commitError)\<close> that rethrows.\<close>

definition commit_rethrown :: "thrown \<Rightarrow> bool" where
  "commit_rethrown commitError =
     (\<not> instanceof_Error commitError
      \<or> \<not> includes_str (message commitError) ''no transaction is active'')"

definition transaction_on_client ::
  "'s env \<Rightarrow> 'a body \<Rightarrow> 's process \<Rightarrow> (thrown + 'a) \<times> 's process" where
  "transaction_on_client env callback p =
     (case client_execute env (Text ''BEGIN'') p of
        (Inl e, p1) \<Rightarrow> (Inl e, p1)
      | (Inr _, p1) \<Rightarrow>
          (case run_body env callback p1 of
             (Inl error, p2) \<Rightarrow> rollback_and_rethrow env error p2
           | (Inr result, p2) \<Rightarrow>
               (case client_execute env (Text ''COMMIT'') p2 of
                  (Inr _, p3) \<Rightarrow> (Inr result, p3)
                | (Inl commitError, p3) \<Rightarrow>
                    if commit_rethrown commitError
                    then rollback_and_rethrow env commitError p3
                    else (Inr result, p3))))"

section \<open>\<^verbatim>\<open>initializeDatabase\<close> (db.ts, lines 18-129)\<close>

text \<open>The template literals of the source keep their line breaks and indentation.\<close>

fun text_lines :: "string list \<Rightarrow> string" where
  "text_lines [] = []"
| "text_lines [l] = l"
| "text_lines (l # m # ls) = l @ CHR 0x0A # text_lines (m # ls)"

definition sql_create_users :: string where
  "sql_create_users = text_lines
     ['''',
      ''    CREATE TABLE IF NOT EXISTS users ('',
      ''      id          TEXT PRIMARY KEY,'',
      ''      email       TEXT UNIQUE NOT NULL,'',
      ''      password    TEXT NOT NULL,'',
      ''      name        TEXT NOT NULL,'',
      ''      role        TEXT NOT NULL CHECK(role IN ('' @ [CHR 0x27] @ ''admin'' @ [CHR 0x27] @ '', '' @ [CHR 0x27] @ ''manager'' @ [CHR 0x27] @ '', '' @ [CHR 0x27] @ ''salesgirl'' @ [CHR 0x27] @ ''))'',
      ''    );'',
      ''  '']"

definition sql_create_products :: string where
  "sql_create_products = text_lines
     ['''',
      ''    CREATE TABLE IF NOT EXISTS products ('',
      ''      id           TEXT PRIMARY KEY,'',
      ''      name         TEXT NOT NULL,'',
      ''      sku          TEXT UNIQUE NOT NULL,'',
      ''      quantity     INTEGER NOT NULL,'',
      ''      reorderLevel INTEGER NOT NULL,'',
      ''      price        REAL NOT NULL,'',
      ''      cost         REAL NOT NULL,'',
      ''      category     TEXT NOT NULL'',
      ''    );'',
      ''  '']"

definition sql_create_sales :: string where
  "sql_create_sales = text_lines
     ['''',
      ''    CREATE TABLE IF NOT EXISTS sales ('',
      ''      id            TEXT PRIMARY KEY,'',
      ''      productId     TEXT NOT NULL,'',
      ''      quantity      INTEGER NOT NULL,'',
      ''      price         REAL NOT NULL,'',
      ''      total         REAL NOT NULL,'',
      ''      date          TEXT NOT NULL,'',
      ''      salesPersonId TEXT NOT NULL,'',
      ''      paymentMode   TEXT NOT NULL CHECK(paymentMode IN ('' @ [CHR 0x27] @ ''POS'' @ [CHR 0x27] @ '', '' @ [CHR 0x27] @ ''transfer'' @ [CHR 0x27] @ '', '' @ [CHR 0x27] @ ''cash'' @ [CHR 0x27] @ '')),'',
      ''      FOREIGN KEY (productId)     REFERENCES products(id),'',
      ''      FOREIGN KEY (salesPersonId) REFERENCES users(id)'',
      ''    );'',
      ''  '']"

definition sql_create_expenses :: string where
  "sql_create_expenses = text_lines
     ['''',
      ''    CREATE TABLE IF NOT EXISTS expenses ('',
      ''      id          TEXT PRIMARY KEY,'',
      ''      description TEXT NOT NULL,'',
      ''      amount      REAL NOT NULL,'',
      ''      category    TEXT NOT NULL,'',
      ''      date        TEXT NOT NULL,'',
      ''      createdBy   TEXT NOT NULL,'',
      ''      FOREIGN KEY (createdBy) REFERENCES users(id)'',
      ''    );'',
      ''  '']"

definition sql_insert_user :: string where
  "sql_insert_user = text_lines
     ['''',
      ''      INSERT OR IGNORE INTO users (id, email, password, name, role)'',
      ''      VALUES (?, ?, ?, ?, ?)'',
      ''    '']"

definition sql_insert_product :: string where
  "sql_insert_product = text_lines
     ['''',
      ''      INSERT OR IGNORE INTO products (id, name, sku, quantity, reorderLevel, price, cost, category)'',
      ''      VALUES (?, ?, ?, ?, ?, ?, ?, ?)'',
      ''    '']"

text \<open>
  The eight statements \<^verbatim>\<open>initializeDatabase\<close> awaits, in order: four table
  creations, then the seed rows. \<open>hashed\<close> is \<^verbatim>\<open>adminHashed\<close>.
\<close>

definition init_statements :: "string \<Rightarrow> in_statement list" where
  "init_statements hashed =
     [Text sql_create_users,
      Text sql_create_products,
      Text sql_create_sales,
      Text sql_create_expenses,
      Stmt sql_insert_user
        [Str ''admin1'', Str ''admin@inventory.com'', Str hashed, Str ''Admin User'', Str ''admin''],
      Stmt sql_insert_product
        [Str ''prod1'', Str ''Sample Product 1'', Str ''SKU001'', Num 100, Num 10, Num 50, Num 30,
         Str ''Electronics''],
      Stmt sql_insert_product
        [Str ''prod2'', Str ''Sample Product 2'', Str ''SKU002'', Num 200, Num 20, Num 25, Num 15,
         Str ''Clothing''],
      Stmt sql_insert_product
        [Str ''prod3'', Str ''Sample Product 3'', Str ''SKU003'', Num 150, Num 15, Num 75, Num 45,
         Str ''Home Goods'']]"

text \<open>
  An \<^verbatim>\<open>async\<close> function runs synchronously up to its first \<^verbatim>\<open>await\<close> and
  returns a promise. \<open>initializeDatabase_start\<close> is that first stretch of
  \<^verbatim>\<open>initializeDatabase()\<close>: the early return when a client exists, then
  \<^verbatim>\<open>createClient\<close> (a throw there rejects the promise and leaves
  \<^verbatim>\<open>libsqlClient\<close> null), then the function is suspended with its statements ahead of it.
  The choice of the database URL (in memory on Vercel, a file otherwise) and the logging
  have no part in what follows and are left out.
\<close>

definition initializeDatabase_start :: "'s env \<Rightarrow> 's process \<Rightarrow> promise \<times> 's process" where
  "initializeDatabase_start env p =
     (let p0 = p\<lparr>init_calls := Suc (init_calls p)\<rparr> in
      if libsqlClient p0 then (Fulfilled, p0)
      else (case createClient env of
              Some e \<Rightarrow> (Rejected e, p0)
            | None \<Rightarrow>
                (Pending, p0\<lparr>libsqlClient := True, init_rest := init_statements (adminHashed env)\<rparr>)))"

text \<open>
  One resumption of the suspended \<^verbatim>\<open>initializeDatabase\<close>: the statement it awaits is
  executed; a failure rejects the promise, a success leaves the next statement to await,
  and with none left the function returns and the promise is fulfilled. Until the promise
  is settled no other code of the layer reaches the engine, so executing the statement
  when it completes is the only order there is.
\<close>

definition initializeDatabase_step :: "'s env \<Rightarrow> 's process \<Rightarrow> 's process" where
  "initializeDatabase_step env p =
     (if initializationPromise p = Some Pending then
        (case init_rest p of
           [] \<Rightarrow> p\<lparr>initializationPromise := Some Fulfilled\<rparr>
         | stmt # rest \<Rightarrow>
             (case client_execute env stmt p of
                (Inl err, p') \<Rightarrow>
                  p'\<lparr>init_delivered := init_delivered p' @ [stmt], init_rest := [],
                     initializationPromise := Some (Rejected err)\<rparr>
              | (Inr _, p') \<Rightarrow>
                  p'\<lparr>init_delivered := init_delivered p' @ [stmt], init_rest := rest\<rparr>))
      else p)"

section \<open>\<^verbatim>\<open>getInitializedClient\<close> (db.ts, lines 135-150)\<close>

text \<open>
  The stretch before \<^verbatim>\<open>await initializationPromise\<close>: there is no \<^verbatim>\<open>await\<close>
  between the test of the variable and the assignment to it.
\<close>

definition getInitializedClient_enter :: "'s env \<Rightarrow> 's process \<Rightarrow> 's process" where
  "getInitializedClient_enter env p =
     (case initializationPromise p of
        None \<Rightarrow>
          (case initializeDatabase_start env p of
             (pr, p') \<Rightarrow> p'\<lparr>initializationPromise := Some pr\<rparr>)
      | Some pr \<Rightarrow> p)"

text \<open>
  The stretch after the \<^verbatim>\<open>await\<close>, run once the promise is settled: a rejected
  promise throws its error; otherwise the client is returned unless the variable is null.
\<close>

definition getInitializedClient_resume :: "'s process \<Rightarrow> thrown + unit" where
  "getInitializedClient_resume p =
     (case initializationPromise p of
        Some (Rejected err) \<Rightarrow> Inl err
      | _ \<Rightarrow>
          if \<not> libsqlClient p then Inl (Error ''Database client not initialized'')
          else Inr ())"

definition settled :: "'s process \<Rightarrow> bool" where
  "settled p =
     (case initializationPromise p of
        Some Fulfilled \<Rightarrow> True
      | Some (Rejected err) \<Rightarrow> True
      | _ \<Rightarrow> False)"

text \<open>
  A caller with the event loop to itself: the suspended initialization is resumed until
  its promise is settled, which takes one resumption per statement left and one more.
\<close>

primrec resume_initialization :: "nat \<Rightarrow> 's env \<Rightarrow> 's process \<Rightarrow> 's process" where
  "resume_initialization 0 env p = p"
| "resume_initialization (Suc n) env p = resume_initialization n env (initializeDatabase_step env p)"

definition await_initialization :: "'s env \<Rightarrow> 's process \<Rightarrow> 's process" where
  "await_initialization env p = resume_initialization (Suc (length (init_rest p))) env p"

definition getInitializedClient :: "'s env \<Rightarrow> 's process \<Rightarrow> (thrown + unit) \<times> 's process" where
  "getInitializedClient env p =
     (let p' = await_initialization env (getInitializedClient_enter env p)
      in (getInitializedClient_resume p', p'))"

section \<open>The public facade \<^verbatim>\<open>db\<close> (db.ts, lines 163-226)\<close>

text \<open>
  Each operation first awaits \<^verbatim>\<open>getInitializedClient()\<close>, whose error it lets
  through. A call that leaves \<^verbatim>\<open>params\<close> out passes the empty list.
\<close>

definition db_all ::
  "'s env \<Rightarrow> string \<Rightarrow> sql_value list \<Rightarrow> 's process \<Rightarrow> (thrown + row list) \<times> 's process" where
  "db_all env sql params p =
     (case getInitializedClient env p of
        (Inl e, p') \<Rightarrow> (Inl e, p')
      | (Inr client, p') \<Rightarrow>
          (case client_execute env (Stmt sql params) p' of
             (Inl e, p'') \<Rightarrow> (Inl e, p'')
           | (Inr rows, p'') \<Rightarrow> (Inr rows, p'')))"

definition db_get ::
  "'s env \<Rightarrow> string \<Rightarrow> sql_value list \<Rightarrow> 's process \<Rightarrow> (thrown + row option) \<times> 's process" where
  "db_get env sql params p =
     (case getInitializedClient env p of
        (Inl e, p') \<Rightarrow> (Inl e, p')
      | (Inr client, p') \<Rightarrow>
          (case client_execute env (Stmt sql params) p' of
             (Inl e, p'') \<Rightarrow> (Inl e, p'')
           | (Inr rows, p'') \<Rightarrow> (Inr (first_or_null rows), p'')))"

definition db_run ::
  "'s env \<Rightarrow> string \<Rightarrow> sql_value list \<Rightarrow> 's process \<Rightarrow> (thrown + unit) \<times> 's process" where
  "db_run env sql params p =
     (case getInitializedClient env p of
        (Inl e, p') \<Rightarrow> (Inl e, p')
      | (Inr client, p') \<Rightarrow>
          (case client_execute env (Stmt sql params) p' of
             (Inl e, p'') \<Rightarrow> (Inl e, p'')
           | (Inr rows, p'') \<Rightarrow> (Inr (), p'')))"

definition db_transaction ::
  "'s env \<Rightarrow> 'a body \<Rightarrow> 's process \<Rightarrow> (thrown + 'a) \<times> 's process" where
  "db_transaction env callback p =
     (case getInitializedClient env p of
        (Inl e, p') \<Rightarrow> (Inl e, p')
      | (Inr client, p') \<Rightarrow> transaction_on_client env callback p')"

section \<open>Concurrent callers on the event loop\<close>

text \<open>
  JavaScript runs one stretch of code at a time, and a stretch ends only at an
  \<^verbatim>\<open>await\<close>. The events of the loop, as far as initialization goes:
  \<^item> \<open>Call c stmt\<close>: caller \<open>c\<close> invokes a facade operation, which calls
    \<^verbatim>\<open>getInitializedClient()\<close> and is suspended at its \<^verbatim>\<open>await\<close>; \<open>stmt\<close> is
    what the operation executes first once it has the client (its statement for
    \<^verbatim>\<open>all\<close>, \<^verbatim>\<open>get\<close> and \<^verbatim>\<open>run\<close>, \<^verbatim>\<open>BEGIN\<close> for \<^verbatim>\<open>transaction\<close>);
  \<^item> \<open>InitStep\<close>: the suspended \<^verbatim>\<open>initializeDatabase\<close> is resumed;
  \<^item> \<open>Resume c\<close>: caller \<open>c\<close> is resumed, which can happen only once the promise it
    awaits is settled; it throws, or executes its statement.
  An event that cannot happen in the state it meets changes nothing. A schedule is any
  list of events.
\<close>

datatype event =
    Call nat in_statement
  | InitStep
  | Resume nat

fun remove_caller :: "nat \<Rightarrow> (nat \<times> in_statement) list \<Rightarrow> (nat \<times> in_statement) list" where
  "remove_caller c [] = []"
| "remove_caller c ((d, stmt) # ws) = (if c = d then ws else (d, stmt) # remove_caller c ws)"

definition resume_caller :: "'s env \<Rightarrow> nat \<Rightarrow> 's process \<Rightarrow> 's process" where
  "resume_caller env c p =
     (case map_of (waiting p) c of
        None \<Rightarrow> p
      | Some stmt \<Rightarrow>
          if \<not> settled p then p
          else
            (let r = getInitializedClient_resume p;
                 p1 = p\<lparr>waiting := remove_caller c (waiting p), outcome := outcome p @ [(c, r)]\<rparr>
             in case r of
                  Inl err \<Rightarrow> p1
                | Inr client \<Rightarrow> snd (client_execute env stmt p1)))"

fun step :: "'s env \<Rightarrow> event \<Rightarrow> 's process \<Rightarrow> 's process" where
  "step env (Call c stmt) p =
     (let p' = getInitializedClient_enter env p in p'\<lparr>waiting := waiting p' @ [(c, stmt)]\<rparr>)"
| "step env InitStep p = initializeDatabase_step env p"
| "step env (Resume c) p = resume_caller env c p"

fun run_events :: "'s env \<Rightarrow> event list \<Rightarrow> 's process \<Rightarrow> 's process" where
  "run_events env [] p = p"
| "run_events env (e # es) p = run_events env es (step env e p)"

text \<open>A process that has just loaded the module, on an engine in state \<open>s\<close>.\<close>

definition fresh_process :: "'s \<Rightarrow> 's process" where
  "fresh_process s =
     \<lparr>libsqlClient = False, initializationPromise = None, store = s, delivered = [],
      init_rest = [], init_calls = 0, init_delivered = [], waiting = [], outcome = []\<rparr>"

section \<open>The SQL engine behind the client\<close>

text \<open>
  The storage engine (the SQLite database that \<^verbatim>\<open>@libsql/client\<close> drives) is no
  part of the repository; the layer reaches it through \<^verbatim>\<open>client.execute\<close> only, and
  the definitions above take it as the parameter \<open>execute\<close>. What follows is a model of
  it for the statements that speak of the store. It knows the statements db.ts and its
  scripts issue, by their text; every other text is answered by the parameter \<open>other\<close>,
  which may do to the engine whatever a statement of SQL can: read and change the tables,
  and commit or roll back the open transaction (another spelling of \<^verbatim>\<open>COMMIT\<close>, a
  conflict clause \<^verbatim>\<open>OR ROLLBACK\<close>).
  \<^verbatim>\<open>CHECK\<close>, \<^verbatim>\<open>NOT NULL\<close> and foreign keys are left out: no seed row violates them.
\<close>

datatype table_name = Users | Products | Sales | Expenses

record database =
  users :: "row list option"
  products :: "row list option"
  sales :: "row list option"
  expenses :: "row list option"

fun table :: "table_name \<Rightarrow> database \<Rightarrow> row list option" where
  "table Users d = users d"
| "table Products d = products d"
| "table Sales d = sales d"
| "table Expenses d = expenses d"

fun set_table :: "table_name \<Rightarrow> row list \<Rightarrow> database \<Rightarrow> database" where
  "set_table Users rs d = d\<lparr>users := Some rs\<rparr>"
| "set_table Products rs d = d\<lparr>products := Some rs\<rparr>"
| "set_table Sales rs d = d\<lparr>sales := Some rs\<rparr>"
| "set_table Expenses rs d = d\<lparr>expenses := Some rs\<rparr>"

text \<open>The columns declared \<^verbatim>\<open>PRIMARY KEY\<close> or \<^verbatim>\<open>UNIQUE\<close> by the schema of db.ts.\<close>

fun unique_columns :: "table_name \<Rightarrow> string list" where
  "unique_columns Users = [''id'', ''email'']"
| "unique_columns Products = [''id'', ''sku'']"
| "unique_columns Sales = [''id'']"
| "unique_columns Expenses = [''id'']"

fun table_text :: "table_name \<Rightarrow> string" where
  "table_text Users = ''users''"
| "table_text Products = ''products''"
| "table_text Sales = ''sales''"
| "table_text Expenses = ''expenses''"

text \<open>
  The engine's state: the tables as the connection sees them, and, while a transaction
  is active, the tables as they were when it began.
\<close>

record engine =
  current :: database
  snapshot :: "database option"

definition empty_database :: database where
  "empty_database = \<lparr>users = None, products = None, sales = None, expenses = None\<rparr>"

definition new_engine :: engine where
  "new_engine = \<lparr>current = empty_database, snapshot = None\<rparr>"

datatype sql_op =
    OpBegin
  | OpCommit
  | OpRollback
  | OpCreate table_name
  | OpInsertOrIgnore table_name "string list"
  | OpSelectAll table_name
  | OpSelectWhere table_name string
  | OpSelectOne
  | OpOther

definition parse :: "string \<Rightarrow> sql_op" where
  "parse sql =
     (if sql = ''BEGIN'' then OpBegin
      else if sql = ''COMMIT'' then OpCommit
      else if sql = ''ROLLBACK'' then OpRollback
      else if sql = sql_create_users then OpCreate Users
      else if sql = sql_create_products then OpCreate Products
      else if sql = sql_create_sales then OpCreate Sales
      else if sql = sql_create_expenses then OpCreate Expenses
      else if sql = sql_insert_user
        then OpInsertOrIgnore Users [''id'', ''email'', ''password'', ''name'', ''role'']
      else if sql = sql_insert_product
        then OpInsertOrIgnore Products
          [''id'', ''name'', ''sku'', ''quantity'', ''reorderLevel'', ''price'', ''cost'', ''category'']
      else if sql = ''SELECT * FROM users'' then OpSelectAll Users
      else if sql = ''SELECT * FROM products'' then OpSelectAll Products
      else if sql = ''SELECT * FROM sales'' then OpSelectAll Sales
      else if sql = ''SELECT * FROM expenses'' then OpSelectAll Expenses
      else if sql = ''SELECT * FROM users WHERE id = ?'' then OpSelectWhere Users ''id''
      else if sql = ''SELECT * FROM products WHERE sku = ?'' then OpSelectWhere Products ''sku''
      else if sql = ''SELECT 1'' then OpSelectOne
      else OpOther)"

text \<open>
  Two rows conflict when they agree on a unique column; SQL's \<^verbatim>\<open>NULL\<close> equals
  nothing.
\<close>

definition conflicts :: "string list \<Rightarrow> row \<Rightarrow> row \<Rightarrow> bool" where
  "conflicts cols new old =
     list_ex (\<lambda>c. map_of new c \<noteq> None \<and> map_of new c \<noteq> Some Null \<and> map_of new c = map_of old c) cols"

definition no_such_table :: "table_name \<Rightarrow> thrown" where
  "no_such_table t = Error (''SQLITE_ERROR: no such table: '' @ table_text t)"

text \<open>
  Modelled from the spec: the engine's \<^verbatim>\<open>INSERT OR IGNORE\<close>, which is not in the
  repository. "Seed insertion uses insert, ignore if conflicting semantics keyed on
  natural unique identifiers": a row that conflicts with one already there is dropped,
  any other is appended.
\<close>

definition insert_or_ignore ::
  "table_name \<Rightarrow> string list \<Rightarrow> sql_value list \<Rightarrow> database \<Rightarrow> (thrown + row list) \<times> database" where
  "insert_or_ignore t cols vals d =
     (case table t d of
        None \<Rightarrow> (Inl (no_such_table t), d)
      | Some rs \<Rightarrow>
          if length vals \<noteq> length cols
          then (Inl (Error ''SQLITE_RANGE: column index out of range''), d)
          else if list_ex (conflicts (unique_columns t) (zip cols vals)) rs then (Inr [], d)
          else (Inr [], set_table t (rs @ [zip cols vals]) d))"

definition select_where ::
  "table_name \<Rightarrow> string \<Rightarrow> sql_value list \<Rightarrow> database \<Rightarrow> (thrown + row list) \<times> database" where
  "select_where t col vals d =
     (case table t d of
        None \<Rightarrow> (Inl (no_such_table t), d)
      | Some rs \<Rightarrow>
          (case vals of
             [v] \<Rightarrow> (Inr (filter (\<lambda>r. v \<noteq> Null \<and> map_of r col = Some v) rs), d)
           | _ \<Rightarrow> (Inl (Error ''SQLITE_RANGE: column index out of range''), d)))"

text \<open>
  Modelled from the spec: the engine's data statements, which are not in the repository.
  Table creation is "create if absent": on a table that exists it does nothing.
\<close>

definition run_data :: "in_statement \<Rightarrow> database \<Rightarrow> (thrown + row list) \<times> database" where
  "run_data stmt d =
     (case parse (stmt_sql stmt) of
        OpCreate t \<Rightarrow> (case table t d of None \<Rightarrow> (Inr [], set_table t [] d) | Some rs \<Rightarrow> (Inr [], d))
      | OpInsertOrIgnore t cols \<Rightarrow> insert_or_ignore t cols (stmt_args stmt) d
      | OpSelectAll t \<Rightarrow>
          (case table t d of None \<Rightarrow> (Inl (no_such_table t), d) | Some rs \<Rightarrow> (Inr rs, d))
      | OpSelectWhere t col \<Rightarrow> select_where t col (stmt_args stmt) d
      | OpSelectOne \<Rightarrow> (Inr [[(''1'', Num 1)]], d)
      | _ \<Rightarrow> (Inl (Error ''SQLITE_ERROR: syntax error''), d))"

text \<open>
  Modelled from the spec: the engine's transaction control, which is not in the
  repository. One connection, at most one active transaction on it; \<^verbatim>\<open>COMMIT\<close> and
  \<^verbatim>\<open>ROLLBACK\<close> fail with "no transaction is active" when none is open;
  \<^verbatim>\<open>ROLLBACK\<close> puts the tables back as they were at \<^verbatim>\<open>BEGIN\<close>. The three
  statements db.ts itself issues are fixed here; a text the model does not know goes to
  \<open>other\<close> with the whole state of the engine, so that it too can end the transaction.
\<close>

definition sqlite ::
  "(in_statement \<Rightarrow> engine \<Rightarrow> (thrown + row list) \<times> engine) \<Rightarrow>
   in_statement \<Rightarrow> engine \<Rightarrow> (thrown + row list) \<times> engine" where
  "sqlite other stmt s =
     (case parse (stmt_sql stmt) of
        OpBegin \<Rightarrow>
          (case snapshot s of
             Some d \<Rightarrow> (Inl (Error ''SQLITE_ERROR: cannot start a transaction within a transaction''), s)
           | None \<Rightarrow> (Inr [], s\<lparr>snapshot := Some (current s)\<rparr>))
      | OpCommit \<Rightarrow>
          (case snapshot s of
             None \<Rightarrow> (Inl (Error ''SQLITE_ERROR: cannot commit - no transaction is active''), s)
           | Some d \<Rightarrow> (Inr [], s\<lparr>snapshot := None\<rparr>))
      | OpRollback \<Rightarrow>
          (case snapshot s of
             None \<Rightarrow> (Inl (Error ''SQLITE_ERROR: cannot rollback - no transaction is active''), s)
           | Some d \<Rightarrow> (Inr [], s\<lparr>current := d, snapshot := None\<rparr>))
      | OpOther \<Rightarrow> other stmt s
      | _ \<Rightarrow> (case run_data stmt (current s) of (r, d') \<Rightarrow> (r, s\<lparr>current := d'\<rparr>)))"

text \<open>An \<open>other\<close> that knows no further statement: every unknown text is a syntax error.\<close>

definition unknown_statement ::
  "in_statement \<Rightarrow> engine \<Rightarrow> (thrown + row list) \<times> engine" where
  "unknown_statement stmt s = (Inl (Error ''SQLITE_ERROR: syntax error''), s)"

text \<open>A process environment on this engine, \<^verbatim>\<open>createClient\<close> succeeding.\<close>

definition sqlite_env ::
  "(in_statement \<Rightarrow> engine \<Rightarrow> (thrown + row list) \<times> engine) \<Rightarrow> string \<Rightarrow> engine env" where
  "sqlite_env other hashed = \<lparr>execute = sqlite other, createClient = None, adminHashed = hashed\<rparr>"

text \<open>The statements a body delivers to the engine when it runs from \<open>p\<close>.\<close>

definition body_statements :: "'s env \<Rightarrow> 'a body \<Rightarrow> 's process \<Rightarrow> in_statement list" where
  "body_statements env callback p =
     drop (length (delivered p)) (delivered (snd (run_body env callback p)))"

text \<open>
  A new process on the store an earlier process left behind (a restart on the same
  database file).
\<close>

definition restart :: "'s process \<Rightarrow> 's process" where
  "restart p = fresh_process (store p)"

section \<open>Vocabulary for the statements about transactions\<close>

text \<open>The process right after \<^verbatim>\<open>BEGIN\<close>, and right after the body has run.\<close>

definition after_begin :: "'s env \<Rightarrow> 's process \<Rightarrow> 's process" where
  "after_begin env p = snd (client_execute env (Text ''BEGIN'') p)"

definition after_body :: "'s env \<Rightarrow> 'a body \<Rightarrow> 's process \<Rightarrow> 's process" where
  "after_body env callback p = snd (run_body env callback (after_begin env p))"

text \<open>
  \<^verbatim>\<open>return await op(...)\<close> with no \<^verbatim>\<open>try\<close> around it: what the operation throws
  leaves the body, what it gives is returned.
\<close>

definition propagate :: "thrown + 'a \<Rightarrow> 'a body" where
  "propagate r = (case r of Inl e \<Rightarrow> Throw e | Inr v \<Rightarrow> Return v)"

text \<open>
  Two ways for a body to go on from \<^verbatim>\<open>tx.transaction(cb)\<close>. \<open>awaited k\<close> is
  \<^verbatim>\<open>await tx.transaction(cb)\<close>, going on with \<open>k\<close> from the value or the error.
  \<open>not_awaited next\<close> is \<^verbatim>\<open>tx.transaction(cb).catch(() => {})\<close> outside any
  \<^verbatim>\<open>try\<close>: a call that throws leaves the body at once; a call that returns its promise
  lets the body go on with \<open>next\<close>, whatever becomes of the promise.
\<close>

definition awaited :: "(thrown + 'a \<Rightarrow> 'a body) \<Rightarrow> 'a call_outcome \<Rightarrow> 'a body" where
  "awaited k r = k (await_outcome r)"

definition not_awaited :: "'a body \<Rightarrow> 'a call_outcome \<Rightarrow> 'a body" where
  "not_awaited next r = (case r of Threw e \<Rightarrow> Throw e | Returned pr \<Rightarrow> next)"

text \<open>The same body with every callback it hands to \<^verbatim>\<open>tx.transaction\<close> replaced by \<open>c\<close>.\<close>

primrec replace_callbacks :: "'a body \<Rightarrow> 'a body \<Rightarrow> 'a body" where
  "replace_callbacks c (Return v) = Return v"
| "replace_callbacks c (Throw e) = Throw e"
| "replace_callbacks c (TxAll sql params k) = TxAll sql params (\<lambda>r. replace_callbacks c (k r))"
| "replace_callbacks c (TxGet sql params k) = TxGet sql params (\<lambda>r. replace_callbacks c (k r))"
| "replace_callbacks c (TxRun sql params k) = TxRun sql params (\<lambda>r. replace_callbacks c (k r))"
| "replace_callbacks c (TxTransaction cb k) = TxTransaction c (\<lambda>r. replace_callbacks c (k r))"

text \<open>
  One body after another: when the first returns, its value is dropped and the second
  runs; when it throws, the error leaves the whole body.
\<close>

primrec then_body :: "'a body \<Rightarrow> 'a body \<Rightarrow> 'a body" where
  "then_body (Return v) b = b"
| "then_body (Throw e) b = Throw e"
| "then_body (TxAll sql params k) b = TxAll sql params (\<lambda>r. then_body (k r) b)"
| "then_body (TxGet sql params k) b = TxGet sql params (\<lambda>r. then_body (k r) b)"
| "then_body (TxRun sql params k) b = TxRun sql params (\<lambda>r. then_body (k r) b)"
| "then_body (TxTransaction cb k) b = TxTransaction cb (\<lambda>r. then_body (k r) b)"

section \<open>Concrete processes, environments and bodies for the witnesses\<close>

text \<open>The process once \<^verbatim>\<open>getInitializedClient\<close> has returned to a lone caller.\<close>

definition client_of :: "'s env \<Rightarrow> 's process \<Rightarrow> 's process" where
  "client_of env p = snd (getInitializedClient env p)"

text \<open>A process on the modelled engine, and the first process on a new database.\<close>

definition demo_env :: "engine env" where
  "demo_env = sqlite_env unknown_statement ''$2b$10$hashOfTheFirstProcess''"

definition seeded_process :: "engine process" where
  "seeded_process = snd (getInitializedClient demo_env (fresh_process new_engine))"

text \<open>An engine whose \<^verbatim>\<open>COMMIT\<close> fails for want of disk space.\<close>

definition failing_commit_env :: "engine env" where
  "failing_commit_env =
     \<lparr>execute = (\<lambda>stmt s. if stmt_sql stmt = ''COMMIT''
                   then (Inl (Error ''SQLITE_FULL: database or disk is full''), s)
                   else sqlite unknown_statement stmt s),
      createClient = None, adminHashed = ''$2b$10$hashOfTheFirstProcess''\<rparr>"

text \<open>What the first process leaves in a new database.\<close>

definition seeded_database :: "string \<Rightarrow> database" where
  "seeded_database hashed =
     \<lparr>users = Some
        [[(''id'', Str ''admin1''), (''email'', Str ''admin@inventory.com''),
          (''password'', Str hashed), (''name'', Str ''Admin User''), (''role'', Str ''admin'')]],
      products = Some
        [[(''id'', Str ''prod1''), (''name'', Str ''Sample Product 1''), (''sku'', Str ''SKU001''),
          (''quantity'', Num 100), (''reorderLevel'', Num 10), (''price'', Num 50),
          (''cost'', Num 30), (''category'', Str ''Electronics'')],
         [(''id'', Str ''prod2''), (''name'', Str ''Sample Product 2''), (''sku'', Str ''SKU002''),
          (''quantity'', Num 200), (''reorderLevel'', Num 20), (''price'', Num 25),
          (''cost'', Num 15), (''category'', Str ''Clothing'')],
         [(''id'', Str ''prod3''), (''name'', Str ''Sample Product 3''), (''sku'', Str ''SKU003''),
          (''quantity'', Num 150), (''reorderLevel'', Num 15), (''price'', Num 75),
          (''cost'', Num 45), (''category'', Str ''Home Goods'')]],
      sales = Some [],
      expenses = Some []\<rparr>"

text \<open>Bodies: each is a callback a caller could pass to \<^verbatim>\<open>db.transaction\<close>.\<close>

definition commits_then_throws :: "nat body" where
  "commits_then_throws = TxRun ''COMMIT'' [] (\<lambda>r. Throw (Error ''boom''))"

definition rolls_back_then_returns :: "nat body" where
  "rolls_back_then_returns = TxRun ''ROLLBACK'' [] (\<lambda>r. Return 7)"

definition returns_seven :: "nat body" where
  "returns_seven = Return 7"




definition inserts_only :: "nat body" where
  "inserts_only =
     TxRun sql_insert_product
       [Str ''prod9'', Str ''Widget'', Str ''SKU900'', Num 1, Num 1, Num 2, Num 1, Str ''Tools'']
       (\<lambda>r. Return 0)"

definition nested_insert :: "nat body" where
  "nested_insert =
     TxRun sql_insert_product
       [Str ''prod8'', Str ''Gadget'', Str ''SKU800'', Num 1, Num 1, Num 2, Num 1, Str ''Tools'']
       (\<lambda>r. Return 1)"


text \<open>
  \<^verbatim>\<open>tx.transaction(cb).catch(() => {}); await tx.run(insert); return 0\<close>: the nested
  call is made and not awaited.
\<close>

definition calls_without_await :: "nat body" where
  "calls_without_await = TxTransaction nested_insert (not_awaited inserts_only)"









section \<open>Vocabulary for the statements about seeding\<close>

text \<open>How many rows of a table hold value \<open>v\<close> in column \<open>col\<close>.\<close>

definition count_rows :: "string \<Rightarrow> sql_value \<Rightarrow> row list \<Rightarrow> nat" where
  "count_rows col v rs = length (filter (\<lambda>r. map_of r col = Some v) rs)"

text \<open>
  An already-seeded store: the four tables exist, and each seeded natural key (the user id
  "admin1", the SKUs "SKU001", "SKU002", "SKU003") has exactly one row.
\<close>

definition seeded :: "database \<Rightarrow> bool" where
  "seeded d =
     (case (users d, products d, sales d, expenses d) of
        (Some us, Some ps, Some ss, Some es) \<Rightarrow>
          count_rows ''id'' (Str ''admin1'') us = 1
          \<and> count_rows ''sku'' (Str ''SKU001'') ps = 1
          \<and> count_rows ''sku'' (Str ''SKU002'') ps = 1
          \<and> count_rows ''sku'' (Str ''SKU003'') ps = 1
      | _ \<Rightarrow> False)"

text \<open>A later process on the same database: bcrypt gives it another hash.\<close>

definition second_env :: "engine env" where
  "second_env = sqlite_env unknown_statement ''$2b$10$hashOfTheSecondProcess''"

section \<open>Vocabulary for the statements about initialization\<close>



text \<open>An engine that cannot open its database file, and schedules for the witnesses.\<close>

definition broken_env :: "engine env" where
  "broken_env =
     \<lparr>execute = (\<lambda>stmt s. (Inl (Error ''SQLITE_CANTOPEN: unable to open database file''), s)),
      createClient = None, adminHashed = ''$2b$10$hashOfTheFirstProcess''\<rparr>"


definition failed_process :: "engine process" where
  "failed_process =
     run_events broken_env
       [Call 1 (Stmt ''SELECT * FROM products'' []), Call 2 (Text ''BEGIN''), InitStep]
       (fresh_process new_engine)"

definition later_events :: "event list" where
  "later_events = [Resume 1, Call 3 (Stmt ''SELECT 1'' []), InitStep, Resume 2, Resume 3]"

definition pending_process :: "engine process" where
  "pending_process =
     run_events broken_env
       [Call 1 (Stmt ''SELECT * FROM products'' []), Call 2 (Text ''BEGIN'')]
       (fresh_process new_engine)"

definition no_client_env :: "engine env" where
  "no_client_env =
     \<lparr>execute = sqlite unknown_statement,
      createClient = Some (Error ''LibsqlError: URL_INVALID''),
      adminHashed = ''$2b$10$hashOfTheFirstProcess''\<rparr>"


section \<open>Basic facts\<close>

lemma starts_with_iff: "starts_with s sub \<longleftrightarrow> (\<exists>ss. s = sub @ ss)"
  by (induction s sub rule: starts_with.induct) auto

lemma includes_str_iff: "includes_str s sub \<longleftrightarrow> (\<exists>ps ss. s = ps @ sub @ ss)"
proof (induction s)
  case Nil
  show ?case by auto
next
  case (Cons x xs)
  have "(\<exists>ps ss. x # xs = ps @ sub @ ss)
          \<longleftrightarrow> (\<exists>ss. x # xs = sub @ ss) \<or> (\<exists>ps ss. xs = ps @ sub @ ss)"
  proof
    assume "\<exists>ps ss. x # xs = ps @ sub @ ss"
    then obtain ps ss where eq: "x # xs = ps @ sub @ ss" by blast
    show "(\<exists>ss. x # xs = sub @ ss) \<or> (\<exists>ps ss. xs = ps @ sub @ ss)"
    proof (cases ps)
      case Nil
      with eq show ?thesis by auto
    next
      case (Cons y ys)
      with eq have "xs = ys @ sub @ ss" by simp
      then show ?thesis by blast
    qed
  next
    assume "(\<exists>ss. x # xs = sub @ ss) \<or> (\<exists>ps ss. xs = ps @ sub @ ss)"
    then show "\<exists>ps ss. x # xs = ps @ sub @ ss"
    proof
      assume "\<exists>ss. x # xs = sub @ ss"
      then obtain ss where "x # xs = [] @ sub @ ss" by auto
      then show ?thesis by blast
    next
      assume "\<exists>ps ss. xs = ps @ sub @ ss"
      then obtain ps ss where "x # xs = (x # ps) @ sub @ ss" by auto
      then show ?thesis by blast
    qed
  qed
  then show ?case
    using Cons.IH by (simp add: starts_with_iff)
qed


lemma client_execute_delivered:
  "delivered (snd (client_execute env stmt p)) = delivered p @ [stmt]"
  by (simp add: client_execute_def split: prod.splits)


lemma txDb_all_snd: "snd (txDb_all env sql params p) = snd (client_execute env (Stmt sql params) p)"
  by (simp add: txDb_all_def split: prod.splits sum.splits)

lemma txDb_get_snd: "snd (txDb_get env sql params p) = snd (client_execute env (Stmt sql params) p)"
  by (simp add: txDb_get_def split: prod.splits sum.splits)

lemma txDb_run_snd: "snd (txDb_run env sql params p) = snd (client_execute env (Stmt sql params) p)"
  by (simp add: txDb_run_def split: prod.splits sum.splits)

lemmas txDb_snd = txDb_all_snd txDb_get_snd txDb_run_snd

lemma run_body_step:
  "run_body env (TxAll sql params ka) p
     = run_body env (ka (fst (txDb_all env sql params p))) (snd (client_execute env (Stmt sql params) p))"
  "run_body env (TxGet sql params kg) p
     = run_body env (kg (fst (txDb_get env sql params p))) (snd (client_execute env (Stmt sql params) p))"
  "run_body env (TxRun sql params kr) p
     = run_body env (kr (fst (txDb_run env sql params p))) (snd (client_execute env (Stmt sql params) p))"
  by (simp_all add: case_prod_beta txDb_all_snd txDb_get_snd txDb_run_snd)

lemma run_body_delivered: "\<exists>ds. delivered (snd (run_body env b p)) = delivered p @ ds"
proof (induction b arbitrary: p)
  case (TxAll sql params k)
  obtain ds where "delivered (snd (run_body env (k (fst (txDb_all env sql params p)))
      (snd (client_execute env (Stmt sql params) p))))
      = delivered (snd (client_execute env (Stmt sql params) p)) @ ds"
    using TxAll.IH [OF rangeI] by blast
  then show ?case unfolding run_body_step by (simp add: client_execute_delivered)
next
  case (TxGet sql params k)
  obtain ds where "delivered (snd (run_body env (k (fst (txDb_get env sql params p)))
      (snd (client_execute env (Stmt sql params) p))))
      = delivered (snd (client_execute env (Stmt sql params) p)) @ ds"
    using TxGet.IH [OF rangeI] by blast
  then show ?case unfolding run_body_step by (simp add: client_execute_delivered)
next
  case (TxRun sql params k)
  obtain ds where "delivered (snd (run_body env (k (fst (txDb_run env sql params p)))
      (snd (client_execute env (Stmt sql params) p))))
      = delivered (snd (client_execute env (Stmt sql params) p)) @ ds"
    using TxRun.IH [OF rangeI] by blast
  then show ?case unfolding run_body_step by (simp add: client_execute_delivered)
next
  case (TxTransaction cb k)
  show ?case using TxTransaction.IH(2) [OF rangeI] by simp
qed simp_all

lemma drop_delivered_step:
  "drop (length (delivered p)) (delivered (snd (run_body env b (snd (client_execute env stmt p)))))
     = stmt # drop (length (delivered (snd (client_execute env stmt p))))
         (delivered (snd (run_body env b (snd (client_execute env stmt p)))))"
proof -
  obtain ds where "delivered (snd (run_body env b (snd (client_execute env stmt p))))
      = delivered (snd (client_execute env stmt p)) @ ds"
    using run_body_delivered by blast
  then show ?thesis by (simp add: client_execute_delivered)
qed

lemma body_statements_step:
  "body_statements env (TxAll sql params ka) p
     = Stmt sql params # body_statements env (ka (fst (txDb_all env sql params p)))
         (snd (client_execute env (Stmt sql params) p))"
  "body_statements env (TxGet sql params kg) p
     = Stmt sql params # body_statements env (kg (fst (txDb_get env sql params p)))
         (snd (client_execute env (Stmt sql params) p))"
  "body_statements env (TxRun sql params kr) p
     = Stmt sql params # body_statements env (kr (fst (txDb_run env sql params p)))
         (snd (client_execute env (Stmt sql params) p))"
  unfolding body_statements_def run_body_step by (rule drop_delivered_step)+

lemma body_statements_nested:
  "body_statements env (TxTransaction cb k) p = body_statements env (k (txDb_transaction cb)) p"
  by (simp add: body_statements_def)

lemma parse_control:
  "parse ''BEGIN'' = OpBegin" "parse ''COMMIT'' = OpCommit" "parse ''ROLLBACK'' = OpRollback"
  by (simp_all add: parse_def)

lemma run_then_body:
  "run_body env (then_body a b) p =
     (case run_body env a p of (Inl e, p') \<Rightarrow> (Inl e, p') | (Inr v, p') \<Rightarrow> run_body env b p')"
proof (induction a arbitrary: p)
  case (TxAll sql params k)
  show ?case using TxAll.IH [OF rangeI] by (simp add: case_prod_beta)
next
  case (TxGet sql params k)
  show ?case using TxGet.IH [OF rangeI] by (simp add: case_prod_beta)
next
  case (TxRun sql params k)
  show ?case using TxRun.IH [OF rangeI] by (simp add: case_prod_beta)
next
  case (TxTransaction cb k)
  show ?case using TxTransaction.IH(2) [OF rangeI] by simp
qed simp_all

lemma seeded_process_eval [code]:
  "seeded_process =
     \<lparr>libsqlClient = True, initializationPromise = Some Fulfilled,
      store = \<lparr>current = seeded_database ''$2b$10$hashOfTheFirstProcess'', snapshot = None\<rparr>,
      delivered = init_statements ''$2b$10$hashOfTheFirstProcess'',
      init_rest = [], init_calls = 1,
      init_delivered = init_statements ''$2b$10$hashOfTheFirstProcess'',
      waiting = [], outcome = []\<rparr>"
  by code_simp

lemma db_transaction_ready:
  "fst (getInitializedClient env p0) = Inr () \<Longrightarrow>
   db_transaction env callback p0 = transaction_on_client env callback (client_of env p0)"
  by (auto simp: db_transaction_def client_of_def split: prod.splits sum.splits)

lemma transaction_body_throws:
  assumes "fst (client_execute env (Text ''BEGIN'') p) = Inr rs"
    and "fst (run_body env callback (after_begin env p)) = Inl error"
  shows "transaction_on_client env callback p
         = (Inl error, snd (client_execute env (Text ''ROLLBACK'') (after_body env callback p)))"
  using assms
  by (auto simp: transaction_on_client_def rollback_and_rethrow_def after_begin_def
      after_body_def split: prod.splits sum.splits)

lemma transaction_body_returns:
  assumes "fst (client_execute env (Text ''BEGIN'') p) = Inr rs"
    and "fst (run_body env callback (after_begin env p)) = Inr result"
  shows "fst (transaction_on_client env callback p) =
           (case fst (client_execute env (Text ''COMMIT'') (after_body env callback p)) of
              Inr rows \<Rightarrow> Inr result
            | Inl commitError \<Rightarrow>
                if instanceof_Error commitError
                   \<and> includes_str (message commitError) ''no transaction is active''
                then Inr result
                else Inl commitError)"
    and "take (Suc (length (delivered (after_body env callback p))))
           (delivered (snd (transaction_on_client env callback p)))
         = delivered (after_body env callback p) @ [Text ''COMMIT'']"
  using assms
  by (auto simp: transaction_on_client_def rollback_and_rethrow_def after_begin_def
      after_body_def commit_rethrown_def client_execute_def split: prod.splits sum.splits)

lemma db_ops_delivered:
  "delivered (snd (db_all env sql params p0))
     = delivered (client_of env p0)
       @ (if fst (getInitializedClient env p0) = Inr () then [Stmt sql params] else [])"
  "delivered (snd (db_get env sql params p0))
     = delivered (client_of env p0)
       @ (if fst (getInitializedClient env p0) = Inr () then [Stmt sql params] else [])"
  "delivered (snd (db_run env sql params p0))
     = delivered (client_of env p0)
       @ (if fst (getInitializedClient env p0) = Inr () then [Stmt sql params] else [])"
  by (auto simp: db_all_def db_get_def db_run_def client_of_def client_execute_def
      split: prod.splits sum.splits)

lemma txDb_ops_delivered:
  "delivered (snd (txDb_all env sql params p)) = delivered p @ [Stmt sql params]"
  "delivered (snd (txDb_get env sql params p)) = delivered p @ [Stmt sql params]"
  "delivered (snd (txDb_run env sql params p)) = delivered p @ [Stmt sql params]"
  by (simp_all add: txDb_snd client_execute_delivered)

lemma sqlite_begin:
  "snapshot s = None \<Longrightarrow>
   sqlite other (Text ''BEGIN'') s = (Inr [], s\<lparr>snapshot := Some (current s)\<rparr>)"
  by (simp add: sqlite_def parse_control)






lemma then_nested_run:
  "snd (run_body env (then_body a (TxTransaction cb (awaited propagate))) p) = snd (run_body env a p)"
  "fst (run_body env a p) = Inr v \<Longrightarrow>
   fst (run_body env (then_body a (TxTransaction cb (awaited propagate))) p)
     = Inl (Error ''Nested transactions not supported'')"
  by (auto simp: run_then_body txDb_transaction_def propagate_def awaited_def await_outcome_def
      split: prod.splits sum.splits)

lemma then_nested_statements:
  "body_statements env (then_body a (TxTransaction cb (awaited propagate))) p = body_statements env a p"
  by (simp add: body_statements_def then_nested_run)

lemma run_replace_callbacks: "run_body env (replace_callbacks c b) p = run_body env b p"
proof (induction b arbitrary: p)
  case (TxAll sql params k)
  show ?case using TxAll.IH [OF rangeI] by simp
next
  case (TxGet sql params k)
  show ?case using TxGet.IH [OF rangeI] by simp
next
  case (TxRun sql params k)
  show ?case using TxRun.IH [OF rangeI] by simp
next
  case (TxTransaction cb k)
  show ?case using TxTransaction.IH(2) [OF rangeI] by (simp add: txDb_transaction_def)
qed simp_all

lemmas sql_text_defs =
  sql_create_users_def sql_create_products_def sql_create_sales_def sql_create_expenses_def
  sql_insert_user_def sql_insert_product_def

lemma parse_init:
  "parse sql_create_users = OpCreate Users"
  "parse sql_create_products = OpCreate Products"
  "parse sql_create_sales = OpCreate Sales"
  "parse sql_create_expenses = OpCreate Expenses"
  "parse sql_insert_user = OpInsertOrIgnore Users [''id'', ''email'', ''password'', ''name'', ''role'']"
  "parse sql_insert_product = OpInsertOrIgnore Products
     [''id'', ''name'', ''sku'', ''quantity'', ''reorderLevel'', ''price'', ''cost'', ''category'']"
  by (simp_all add: parse_def sql_text_defs)

lemma count_rows_ex:
  "count_rows col v rs = 1 \<Longrightarrow> \<exists>r\<in>set rs. map_of r col = Some v"
proof -
  assume "count_rows col v rs = 1"
  then have "filter (\<lambda>r. map_of r col = Some v) rs \<noteq> []"
    by (auto simp: count_rows_def)
  then show ?thesis
    by (auto simp: filter_empty_conv)
qed

lemma conflict_on_column:
  assumes "r \<in> set rs" and "map_of r col = Some v" and "map_of new col = Some v"
    and "v \<noteq> Null" and "col \<in> set cols"
  shows "list_ex (conflicts cols new) rs"
proof -
  have "conflicts cols new r"
    unfolding conflicts_def list_ex_iff using assms(2-5) by (intro bexI [of _ col]) auto
  with assms(1) show ?thesis
    unfolding list_ex_iff by blast
qed

lemma seeded_init_statement:
  assumes "seeded (current s)" and "stmt \<in> set (init_statements h)"
  shows "sqlite other stmt s = (Inr [], s)"
proof -
  obtain us ps ss es where t: "users (current s) = Some us" "products (current s) = Some ps"
      "sales (current s) = Some ss" "expenses (current s) = Some es"
    and c: "count_rows ''id'' (Str ''admin1'') us = 1" "count_rows ''sku'' (Str ''SKU001'') ps = 1"
      "count_rows ''sku'' (Str ''SKU002'') ps = 1" "count_rows ''sku'' (Str ''SKU003'') ps = 1"
    using assms(1) by (auto simp: seeded_def split: option.splits)
  have u: "list_ex (conflicts [''id'', ''email''] new) us" if "map_of new ''id'' = Some (Str ''admin1'')" for new
    using count_rows_ex [OF c(1)] that by (auto intro: conflict_on_column)
  have p1: "list_ex (conflicts [''id'', ''sku''] new) ps" if "map_of new ''sku'' = Some (Str ''SKU001'')" for new
    using count_rows_ex [OF c(2)] that by (auto intro: conflict_on_column)
  have p2: "list_ex (conflicts [''id'', ''sku''] new) ps" if "map_of new ''sku'' = Some (Str ''SKU002'')" for new
    using count_rows_ex [OF c(3)] that by (auto intro: conflict_on_column)
  have p3: "list_ex (conflicts [''id'', ''sku''] new) ps" if "map_of new ''sku'' = Some (Str ''SKU003'')" for new
    using count_rows_ex [OF c(4)] that by (auto intro: conflict_on_column)
  from assms(2) show ?thesis
    unfolding init_statements_def
    by (auto simp: sqlite_def run_data_def parse_init insert_or_ignore_def t u p1 p2 p3)
qed

lemma resume_all_unchanged:
  assumes "initializationPromise p = Some Pending" and "init_rest p = stmts"
    and "\<forall>stmt\<in>set stmts. execute env stmt (store p) = (Inr [], store p)"
  shows "resume_initialization (Suc (length stmts)) env p
           = p\<lparr>initializationPromise := Some Fulfilled, delivered := delivered p @ stmts,
               init_rest := [], init_delivered := init_delivered p @ stmts\<rparr>"
  using assms
proof (induction stmts arbitrary: p)
  case Nil
  then show ?case by (simp add: initializeDatabase_step_def)
next
  case (Cons stmt rest)
  let ?q = "initializeDatabase_step env p"
  have q: "?q = p\<lparr>delivered := delivered p @ [stmt], init_rest := rest,
                    init_delivered := init_delivered p @ [stmt]\<rparr>"
    using Cons.prems by (simp add: initializeDatabase_step_def client_execute_def)
  have "resume_initialization (Suc (length rest)) env ?q
          = ?q\<lparr>initializationPromise := Some Fulfilled, delivered := delivered ?q @ rest,
               init_rest := [], init_delivered := init_delivered ?q @ rest\<rparr>"
    using Cons.prems by (intro Cons.IH) (simp_all add: q)
  then show ?case by (simp add: q)
qed

lemma seeded_rerun:
  assumes "seeded (current s)"
  shows "fst (getInitializedClient (sqlite_env other h2) (fresh_process s)) = Inr ()
         \<and> delivered (client_of (sqlite_env other h2) (fresh_process s)) = init_statements h2
         \<and> store (client_of (sqlite_env other h2) (fresh_process s)) = s
         \<and> seeded (current (store (client_of (sqlite_env other h2) (fresh_process s))))"
proof -
  let ?env = "sqlite_env other h2"
  let ?p = "getInitializedClient_enter ?env (fresh_process s)"
  have p: "?p = (fresh_process s)\<lparr>libsqlClient := True, initializationPromise := Some Pending,
                  init_rest := init_statements h2, init_calls := 1\<rparr>"
    by (simp add: getInitializedClient_enter_def initializeDatabase_start_def fresh_process_def
        sqlite_env_def)
  have "store ?p = store (fresh_process s)"
    by (simp add: p)
  then have sp: "store ?p = s" "execute ?env = sqlite other"
    by (simp_all add: fresh_process_def sqlite_env_def)
  have "\<forall>stmt\<in>set (init_statements h2). execute ?env stmt (store ?p) = (Inr [], store ?p)"
    unfolding sp using seeded_init_statement [OF assms] by blast
  moreover have "initializationPromise ?p = Some Pending" "init_rest ?p = init_statements h2"
    by (simp_all add: p)
  ultimately have "resume_initialization (Suc (length (init_statements h2))) ?env ?p
      = ?p\<lparr>initializationPromise := Some Fulfilled, delivered := delivered ?p @ init_statements h2,
            init_rest := [], init_delivered := init_delivered ?p @ init_statements h2\<rparr>"
    by (intro resume_all_unchanged)
  then have "await_initialization ?env ?p
      = ?p\<lparr>initializationPromise := Some Fulfilled, delivered := delivered ?p @ init_statements h2,
            init_rest := [], init_delivered := init_delivered ?p @ init_statements h2\<rparr>"
    unfolding await_initialization_def by (simp add: p)
  then have "await_initialization ?env ?p
      = \<lparr>libsqlClient = True, initializationPromise = Some Fulfilled, store = s,
         delivered = init_statements h2, init_rest = [], init_calls = 1,
         init_delivered = init_statements h2, waiting = [], outcome = []\<rparr>"
    unfolding p by (simp add: fresh_process_def)
  then show ?thesis
    using assms
    by (simp add: getInitializedClient_def client_of_def getInitializedClient_resume_def Let_def)
qed

lemma first_run: "store seeded_process = \<lparr>current = seeded_database ''$2b$10$hashOfTheFirstProcess'', snapshot = None\<rparr>"
  by code_simp

lemma seeded_first: "seeded (seeded_database h)"
  by (simp add: seeded_def seeded_database_def count_rows_def)

lemma first_run_seeds:
  "store (client_of (sqlite_env other h) (fresh_process new_engine))
     = \<lparr>current = seeded_database h, snapshot = None\<rparr>"
  by (simp add: client_of_def getInitializedClient_def getInitializedClient_enter_def
      initializeDatabase_start_def fresh_process_def sqlite_env_def await_initialization_def
      init_statements_def initializeDatabase_step_def client_execute_def sqlite_def run_data_def
      parse_init insert_or_ignore_def new_engine_def empty_database_def seeded_database_def
      conflicts_def Let_def)









lemma enter_records_promise: "initializationPromise (getInitializedClient_enter env p) \<noteq> None"
  by (auto simp: getInitializedClient_enter_def initializeDatabase_start_def Let_def
      split: option.splits prod.splits)


lemma init_step_unless_pending:
  "initializationPromise p \<noteq> Some Pending \<Longrightarrow> initializeDatabase_step env p = p"
  by (simp add: initializeDatabase_step_def)





lemma resume_initialization_settled:
  "initializationPromise p \<noteq> Some Pending \<Longrightarrow> resume_initialization n env p = p"
  by (induction n) (simp_all add: init_step_unless_pending)

lemma rejected_getInitializedClient:
  "initializationPromise p = Some (Rejected e) \<Longrightarrow> getInitializedClient env p = (Inl e, p)"
  by (simp add: getInitializedClient_def getInitializedClient_enter_def await_initialization_def
      resume_initialization_settled getInitializedClient_resume_def init_step_unless_pending)

lemma rejected_step:
  assumes "initializationPromise p = Some (Rejected e)"
  shows "initializationPromise (step env ev p) = Some (Rejected e)"
    and "init_calls (step env ev p) = init_calls p"
    and "delivered (step env ev p) = delivered p"
    and "store (step env ev p) = store p"
    and "outcome (step env ev p) = outcome p \<or> (\<exists>c. outcome (step env ev p) = outcome p @ [(c, Inl e)])"
  using assms
  by (cases ev; auto simp: Let_def getInitializedClient_enter_def initializeDatabase_step_def
      resume_caller_def getInitializedClient_resume_def settled_def split: option.splits)+

lemma rejected_run:
  assumes "initializationPromise p = Some (Rejected e)"
  shows "initializationPromise (run_events env es p) = Some (Rejected e)
         \<and> init_calls (run_events env es p) = init_calls p
         \<and> delivered (run_events env es p) = delivered p
         \<and> store (run_events env es p) = store p
         \<and> (\<exists>xs. outcome (run_events env es p) = outcome p @ xs \<and> (\<forall>(c, r)\<in>set xs. r = Inl e))"
  using assms
proof (induction es arbitrary: p)
  case Nil
  then show ?case by simp
next
  case (Cons ev es)
  note st = rejected_step [OF Cons.prems, of env ev]
  obtain xs where xs: "outcome (run_events env es (step env ev p)) = outcome (step env ev p) @ xs"
      "\<forall>(c, r)\<in>set xs. r = Inl e"
    using Cons.IH [OF st(1)] by blast
  from st(5) obtain ys where ys: "outcome (step env ev p) = outcome p @ ys" "\<forall>(c, r)\<in>set ys. r = Inl e"
    by (cases "outcome (step env ev p) = outcome p") auto
  have "outcome (run_events env (ev # es) p) = outcome p @ (ys @ xs)"
    using xs(1) ys(1) by simp
  moreover have "\<forall>(c, r)\<in>set (ys @ xs). r = Inl e"
    using xs(2) ys(2) by auto
  ultimately have "\<exists>zs. outcome (run_events env (ev # es) p) = outcome p @ zs
      \<and> (\<forall>(c, r)\<in>set zs. r = Inl e)"
    by blast
  then show ?case
    using Cons.IH [OF st(1)] st(2,3,4) by simp
qed

section \<open>A lone caller\<close>

text \<open>
  \<open>getInitializedClient\<close> gives its caller the event loop to itself and resumes the
  initialization once per statement left and once more. That is enough for the promise
  to be settled, and it is what a schedule with one caller does.
\<close>

lemma settled_iff:
  "settled p \<longleftrightarrow> initializationPromise p \<noteq> None \<and> initializationPromise p \<noteq> Some Pending"
  by (auto simp: settled_def split: option.splits promise.splits)

lemma resume_settles:
  "initializationPromise p \<noteq> None \<Longrightarrow> length (init_rest p) < n \<Longrightarrow>
   settled (resume_initialization n env p)"
proof (induction n arbitrary: p)
  case 0
  then show ?case by simp
next
  case (Suc n)
  show ?case
  proof (cases "initializationPromise p = Some Pending")
    case False
    with Suc.prems(1) show ?thesis
      by (simp add: resume_initialization_settled init_step_unless_pending settled_iff)
  next
    case True
    show ?thesis
    proof (cases "init_rest p")
      case Nil
      with True have "initializationPromise (initializeDatabase_step env p) = Some Fulfilled"
        by (simp add: initializeDatabase_step_def)
      then show ?thesis
        by (simp add: resume_initialization_settled settled_iff)
    next
      case (Cons stmt rest)
      show ?thesis
      proof (cases "fst (client_execute env stmt p)")
        case (Inl err)
        with True Cons have "initializationPromise (initializeDatabase_step env p) = Some (Rejected err)"
          by (auto simp: initializeDatabase_step_def split: prod.splits)
        then show ?thesis
          by (simp add: resume_initialization_settled settled_iff)
      next
        case (Inr rows)
        with True Cons have "initializationPromise (initializeDatabase_step env p) = Some Pending"
            "init_rest (initializeDatabase_step env p) = rest"
          by (auto simp: initializeDatabase_step_def client_execute_def split: prod.splits)
        with Suc.prems(2) Cons show ?thesis
          by (simp add: Suc.IH)
      qed
    qed
  qed
qed

lemma await_settles: "settled (await_initialization env (getInitializedClient_enter env p))"
  unfolding await_initialization_def
  by (rule resume_settles) (simp_all add: enter_records_promise)

lemma getInitializedClient_settles:
  "settled (snd (getInitializedClient env p))"
  by (simp add: getInitializedClient_def Let_def await_settles)

lemma step_waiting:
  "initializeDatabase_step env (p\<lparr>waiting := w\<rparr>) = (initializeDatabase_step env p)\<lparr>waiting := w\<rparr>"
  by (auto simp: initializeDatabase_step_def client_execute_def split: list.splits prod.splits sum.splits)

lemma init_steps_waiting:
  "run_events env (replicate n InitStep) (p\<lparr>waiting := w\<rparr>)
     = (resume_initialization n env p)\<lparr>waiting := w\<rparr>"
  by (induction n arbitrary: p) (simp_all add: step_waiting)

lemma run_events_append:
  "run_events env (es @ fs) p = run_events env fs (run_events env es p)"
  by (induction es arbitrary: p) simp_all

lemma lone_caller:
  "outcome (run_events env
      (Call c stmt # replicate (Suc (length (init_rest (getInitializedClient_enter env p)))) InitStep
         @ [Resume c])
      (p\<lparr>waiting := []\<rparr>))
     = outcome (snd (getInitializedClient env p)) @ [(c, fst (getInitializedClient env p))]"
proof -
  let ?q = "getInitializedClient_enter env p"
  let ?n = "Suc (length (init_rest ?q))"
  have e: "getInitializedClient_enter env (p\<lparr>waiting := []\<rparr>) = ?q\<lparr>waiting := []\<rparr>"
    by (auto simp: getInitializedClient_enter_def initializeDatabase_start_def Let_def
        split: option.splits)
  have "run_events env (replicate ?n InitStep) (?q\<lparr>waiting := [(c, stmt)]\<rparr>)
          = (resume_initialization ?n env ?q)\<lparr>waiting := [(c, stmt)]\<rparr>"
    by (rule init_steps_waiting)
  moreover have "settled (resume_initialization ?n env ?q)"
    by (rule resume_settles) (simp_all add: enter_records_promise)
  ultimately show ?thesis
    unfolding run_events.simps(2) step.simps(1) Let_def e run_events_append
    by (auto simp: resume_caller_def settled_def getInitializedClient_def await_initialization_def
        getInitializedClient_resume_def client_execute_def Let_def
        split: option.splits promise.splits prod.splits)
qed

section \<open>Initialization runs once\<close>



section \<open>A throwing body is rolled back\<close>




section \<open>Nested transactions\<close>

text \<open>
  C3, as amended. Calling \<^verbatim>\<open>transaction\<close> on the scoped facade fails at once: the call
  returns a promise already rejected with the error "Nested transactions not supported",
  which the body gets where it awaits the call, in the very state it made the call in.
  The callback is never run and no statement of it reaches the engine: what a body
  does, what it delivers and how it ends stay the same when every callback it hands to
  \<^verbatim>\<open>tx.transaction\<close> is replaced by any other; and a body that only awaits the nested
  call delivers nothing.
\<close>

theorem nested_transaction_fails_fast:
  "run_body env (replace_callbacks c b) p = run_body env b p
   \<and> (txDb_transaction cb :: 'a call_outcome)
       = Returned (RejectedWith (Error ''Nested transactions not supported''))
   \<and> await_outcome (txDb_transaction cb :: 'a call_outcome)
       = Inl (Error ''Nested transactions not supported'')
   \<and> run_body env (TxTransaction cb (awaited k)) p
       = run_body env (k (Inl (Error ''Nested transactions not supported''))) p
   \<and> run_body env (TxTransaction cb (awaited propagate)) p
       = (Inl (Error ''Nested transactions not supported''), p)
   \<and> body_statements env (TxTransaction cb (awaited propagate)) p = []"
  by (simp add: run_replace_callbacks txDb_transaction_def await_outcome_def awaited_def
      propagate_def body_statements_def)

text \<open>
  C3 as stated says the failure is synchronous. It is not: the call does not throw, so a
  body that makes the call without awaiting it goes on, its next statement reaches the
  engine, and the outer transaction commits. Had the call thrown, the same body would
  have been left at the call.
\<close>

theorem nested_transaction_not_synchronous_counterexample:
  "(txDb_transaction nested_insert :: nat call_outcome)
     \<noteq> Threw (Error ''Nested transactions not supported'')
   \<and> fst (db_transaction demo_env calls_without_await seeded_process) = Inr 0
   \<and> drop (length (delivered seeded_process))
        (delivered (snd (db_transaction demo_env calls_without_await seeded_process)))
       = [Text ''BEGIN'',
          Stmt sql_insert_product
            [Str ''prod9'', Str ''Widget'', Str ''SKU900'', Num 1, Num 1, Num 2, Num 1, Str ''Tools''],
          Text ''COMMIT'']
   \<and> run_body demo_env
        (not_awaited inserts_only (Threw (Error ''Nested transactions not supported'')))
        seeded_process
       = (Inl (Error ''Nested transactions not supported''), seeded_process)"
  by code_simp

section \<open>Commit after a body that returns\<close>

text \<open>
  C4. When the body returns, \<^verbatim>\<open>COMMIT\<close> is delivered right after the body's last
  statement. If it succeeds, or fails with an \<^verbatim>\<open>Error\<close> whose message contains
  "no transaction is active", \<^verbatim>\<open>transaction\<close> resolves with the body's result; any
  other commit failure is what \<^verbatim>\<open>transaction\<close> rejects with.
\<close>

theorem commit_failure_handling:
  assumes "fst (getInitializedClient env p0) = Inr ()"
    and "fst (client_execute env (Text ''BEGIN'') (client_of env p0)) = Inr rs"
    and "fst (run_body env callback (after_begin env (client_of env p0))) = Inr result"
  shows "fst (db_transaction env callback p0) =
           (case fst (client_execute env (Text ''COMMIT'') (after_body env callback (client_of env p0))) of
              Inr rows \<Rightarrow> Inr result
            | Inl commitError \<Rightarrow>
                if instanceof_Error commitError
                   \<and> includes_str (message commitError) ''no transaction is active''
                then Inr result
                else Inl commitError)
         \<and> take (Suc (length (delivered (after_body env callback (client_of env p0)))))
             (delivered (snd (db_transaction env callback p0)))
           = delivered (after_body env callback (client_of env p0)) @ [Text ''COMMIT'']"
  using transaction_body_returns [OF assms(2,3)]
  by (simp add: db_transaction_ready [OF assms(1)])

theorem commit_failure_handling_witness:
  "fst (db_transaction demo_env rolls_back_then_returns seeded_process) = Inr 7
   \<and> fst (client_execute demo_env (Text ''COMMIT'')
            (after_body demo_env rolls_back_then_returns (client_of demo_env seeded_process)))
       = Inl (Error ''SQLITE_ERROR: cannot commit - no transaction is active'')
   \<and> fst (db_transaction failing_commit_env returns_seven seeded_process)
       = Inl (Error ''SQLITE_FULL: database or disk is full'')
   \<and> fst (db_transaction demo_env returns_seven seeded_process) = Inr 7"
proof -
  have a1: "fst (getInitializedClient demo_env seeded_process) = Inr ()"
    by code_simp
  have a2: "fst (client_execute demo_env (Text ''BEGIN'') (client_of demo_env seeded_process)) = Inr []"
    by code_simp
  have a3: "fst (run_body demo_env rolls_back_then_returns
               (after_begin demo_env (client_of demo_env seeded_process))) = Inr 7"
    by code_simp
  have a4: "fst (client_execute demo_env (Text ''COMMIT'')
            (after_body demo_env rolls_back_then_returns (client_of demo_env seeded_process)))
       = Inl (Error ''SQLITE_ERROR: cannot commit - no transaction is active'')"
    by code_simp
  have a5: "includes_str ''SQLITE_ERROR: cannot commit - no transaction is active''
              ''no transaction is active''"
    by code_simp
  have b1: "fst (getInitializedClient failing_commit_env seeded_process) = Inr ()"
    by code_simp
  have b2: "fst (client_execute failing_commit_env (Text ''BEGIN'')
              (client_of failing_commit_env seeded_process)) = Inr []"
    by code_simp
  have b3: "fst (run_body failing_commit_env returns_seven
               (after_begin failing_commit_env (client_of failing_commit_env seeded_process))) = Inr 7"
    by code_simp
  have b4: "fst (client_execute failing_commit_env (Text ''COMMIT'')
            (after_body failing_commit_env returns_seven (client_of failing_commit_env seeded_process)))
       = Inl (Error ''SQLITE_FULL: database or disk is full'')"
    by code_simp
  have b5: "\<not> includes_str ''SQLITE_FULL: database or disk is full'' ''no transaction is active''"
    by code_simp
  have c3: "fst (run_body demo_env returns_seven
               (after_begin demo_env (client_of demo_env seeded_process))) = Inr 7"
    by code_simp
  have c4: "fst (client_execute demo_env (Text ''COMMIT'')
            (after_body demo_env returns_seven (client_of demo_env seeded_process))) = Inr []"
    by code_simp
  have "fst (db_transaction demo_env rolls_back_then_returns seeded_process) = Inr 7"
    using commit_failure_handling [OF a1 a2 a3] a4 a5 by simp
  moreover have "fst (db_transaction failing_commit_env returns_seven seeded_process)
       = Inl (Error ''SQLITE_FULL: database or disk is full'')"
    using commit_failure_handling [OF b1 b2 b3] b4 b5 by simp
  moreover have "fst (db_transaction demo_env returns_seven seeded_process) = Inr 7"
    using commit_failure_handling [OF a1 a2 c3] c4 by simp
  ultimately show ?thesis using a4 by simp
qed

section \<open>Rollback on a throwing body\<close>

text \<open>
  C5. When the body throws and the \<^verbatim>\<open>ROLLBACK\<close> of the cleanup fails as well, the
  rollback's error is dropped: \<^verbatim>\<open>transaction\<close> rejects with the body's error, having
  delivered \<^verbatim>\<open>ROLLBACK\<close> right after the body's last statement.
\<close>

theorem rollback_failure_suppressed:
  assumes "fst (getInitializedClient env p0) = Inr ()"
    and "fst (client_execute env (Text ''BEGIN'') (client_of env p0)) = Inr rs"
    and "fst (run_body env callback (after_begin env (client_of env p0))) = Inl error"
    and "fst (client_execute env (Text ''ROLLBACK'') (after_body env callback (client_of env p0)))
           = Inl rollbackError"
  shows "fst (db_transaction env callback p0) = Inl error
         \<and> delivered (snd (db_transaction env callback p0))
             = delivered (after_body env callback (client_of env p0)) @ [Text ''ROLLBACK'']"
  by (simp add: db_transaction_ready [OF assms(1)] transaction_body_throws [OF assms(2,3)]
      client_execute_delivered)

theorem rollback_failure_suppressed_witness:
  "fst (db_transaction demo_env commits_then_throws seeded_process) = Inl (Error ''boom'')
   \<and> fst (client_execute demo_env (Text ''ROLLBACK'')
            (after_body demo_env commits_then_throws (client_of demo_env seeded_process)))
       = Inl (Error ''SQLITE_ERROR: cannot rollback - no transaction is active'')"
proof -
  have h1: "fst (getInitializedClient demo_env seeded_process) = Inr ()"
    by code_simp
  have h2: "fst (client_execute demo_env (Text ''BEGIN'') (client_of demo_env seeded_process)) = Inr []"
    by code_simp
  have h3: "fst (run_body demo_env commits_then_throws
               (after_begin demo_env (client_of demo_env seeded_process))) = Inl (Error ''boom'')"
    by code_simp
  have h4: "fst (client_execute demo_env (Text ''ROLLBACK'')
            (after_body demo_env commits_then_throws (client_of demo_env seeded_process)))
       = Inl (Error ''SQLITE_ERROR: cannot rollback - no transaction is active'')"
    by code_simp
  show ?thesis
    using rollback_failure_suppressed [OF h1 h2 h3 h4] h4 by simp
qed

section \<open>\<^verbatim>\<open>get\<close> on no rows\<close>

text \<open>
  C6. When the statement's execution gives zero rows, \<^verbatim>\<open>get\<close> resolves with
  \<^verbatim>\<open>null\<close>, on the public facade and on the scoped one. When \<^verbatim>\<open>get\<close> throws, what
  it throws is the error of \<^verbatim>\<open>getInitializedClient\<close> or the error the engine gave
  for the statement.
\<close>

theorem get_zero_rows_is_null:
  "(fst (getInitializedClient env p0) = Inr ()
      \<and> fst (execute env (Stmt sql params) (store (client_of env p0))) = Inr []
     \<longrightarrow> fst (db_get env sql params p0) = Inr None)
   \<and> (fst (execute env (Stmt sql params) (store p)) = Inr []
     \<longrightarrow> fst (txDb_get env sql params p) = Inr None)
   \<and> (fst (db_get env sql params p0) = Inl e
     \<longrightarrow> fst (getInitializedClient env p0) = Inl e
         \<or> fst (execute env (Stmt sql params) (store (client_of env p0))) = Inl e)
   \<and> (fst (txDb_get env sql params p) = Inl e
     \<longrightarrow> fst (execute env (Stmt sql params) (store p)) = Inl e)"
  by (auto simp: db_get_def txDb_get_def client_of_def client_execute_def first_or_null_def
      split: prod.splits sum.splits)

theorem get_zero_rows_is_null_witness:
  "fst (db_get demo_env ''SELECT * FROM products WHERE sku = ?'' [Str ''SKU404'']
         (fresh_process new_engine)) = Inr None
   \<and> fst (txDb_get demo_env ''SELECT * FROM sales'' [] seeded_process) = Inr None
   \<and> fst (db_get demo_env ''SELECT * FROM nowhere'' [] seeded_process)
       = Inl (Error ''SQLITE_ERROR: syntax error'')
   \<and> fst (execute demo_env (Stmt ''SELECT * FROM nowhere'' []) (store (client_of demo_env seeded_process)))
       = Inl (Error ''SQLITE_ERROR: syntax error'')
   \<and> fst (txDb_get demo_env ''SELECT * FROM nowhere'' [] seeded_process)
       = Inl (Error ''SQLITE_ERROR: syntax error'')
   \<and> fst (execute demo_env (Stmt ''SELECT * FROM nowhere'' []) (store seeded_process))
       = Inl (Error ''SQLITE_ERROR: syntax error'')"
proof -
  have h6: "fst (txDb_get demo_env ''SELECT * FROM nowhere'' [] seeded_process)
       = Inl (Error ''SQLITE_ERROR: syntax error'')"
    by code_simp
  have h1: "fst (getInitializedClient demo_env (fresh_process new_engine)) = Inr ()"
    by code_simp
  have h2: "fst (execute demo_env (Stmt ''SELECT * FROM products WHERE sku = ?'' [Str ''SKU404''])
               (store (client_of demo_env (fresh_process new_engine)))) = Inr []"
    by code_simp
  have h3: "fst (execute demo_env (Stmt ''SELECT * FROM sales'' []) (store seeded_process)) = Inr []"
    by code_simp
  have h4: "fst (db_get demo_env ''SELECT * FROM nowhere'' [] seeded_process)
       = Inl (Error ''SQLITE_ERROR: syntax error'')"
    by code_simp
  have h5: "fst (getInitializedClient demo_env seeded_process) = Inr ()"
    by code_simp
  have "fst (db_get demo_env ''SELECT * FROM products WHERE sku = ?'' [Str ''SKU404'']
         (fresh_process new_engine)) = Inr None"
    using get_zero_rows_is_null [of demo_env "fresh_process new_engine"
        "''SELECT * FROM products WHERE sku = ?''" "[Str ''SKU404'']"] h1 h2
    by simp
  moreover have "fst (txDb_get demo_env ''SELECT * FROM sales'' [] seeded_process) = Inr None"
    using get_zero_rows_is_null [of demo_env _ "''SELECT * FROM sales''" "[]" seeded_process] h3
    by simp
  moreover have "fst (execute demo_env (Stmt ''SELECT * FROM nowhere'' [])
       (store (client_of demo_env seeded_process))) = Inl (Error ''SQLITE_ERROR: syntax error'')"
    using get_zero_rows_is_null [of demo_env seeded_process "''SELECT * FROM nowhere''" "[]" _
        "Error ''SQLITE_ERROR: syntax error''"] h4 h5
    by simp
  moreover have "fst (execute demo_env (Stmt ''SELECT * FROM nowhere'' []) (store seeded_process))
       = Inl (Error ''SQLITE_ERROR: syntax error'')"
    using get_zero_rows_is_null [of demo_env _ "''SELECT * FROM nowhere''" "[]" seeded_process
        "Error ''SQLITE_ERROR: syntax error''"] h6
    by simp
  ultimately show ?thesis using h4 h6 by simp
qed

section \<open>A failed initialization is terminal\<close>

text \<open>
  C7. Once the initialization promise is rejected with \<open>e\<close>, no schedule changes it:
  it stays rejected with \<open>e\<close>, \<^verbatim>\<open>initializeDatabase\<close> is not called again, nothing more
  reaches the engine, every caller resumed from then on (one that was waiting, or one
  that calls later) gets \<open>e\<close>, and so does every facade operation. The promise becomes
  rejected with \<open>e\<close> when a statement of the initialization fails with \<open>e\<close>, or when
  \<^verbatim>\<open>createClient\<close> throws \<open>e\<close>.
\<close>

theorem failed_initialization_is_terminal:
  "(initializationPromise p = Some (Rejected e) \<longrightarrow>
      initializationPromise (run_events env events p) = Some (Rejected e)
      \<and> init_calls (run_events env events p) = init_calls p
      \<and> delivered (run_events env events p) = delivered p
      \<and> (\<forall>(c, r)\<in>set (drop (length (outcome p)) (outcome (run_events env events p))). r = Inl e)
      \<and> (map_of (waiting p) c = Some stmt
           \<longrightarrow> outcome (step env (Resume c) p) = outcome p @ [(c, Inl e)])
      \<and> getInitializedClient env p = (Inl e, p)
      \<and> db_all env sql params p = (Inl e, p)
      \<and> db_get env sql params p = (Inl e, p)
      \<and> db_run env sql params p = (Inl e, p)
      \<and> db_transaction env callback p = (Inl e, p))
   \<and> (initializationPromise q = Some Pending \<and> init_rest q = stmta # rest
        \<and> fst (execute env stmta (store q)) = Inl e
       \<longrightarrow> initializationPromise (step env InitStep q) = Some (Rejected e))
   \<and> (initializationPromise q = None \<and> \<not> libsqlClient q \<and> createClient env = Some e
       \<longrightarrow> initializationPromise (step env (Call c stmt) q) = Some (Rejected e))"
proof -
  have a: "initializationPromise (run_events env events p) = Some (Rejected e)
      \<and> init_calls (run_events env events p) = init_calls p
      \<and> delivered (run_events env events p) = delivered p
      \<and> (\<forall>(c, r)\<in>set (drop (length (outcome p)) (outcome (run_events env events p))). r = Inl e)"
    if "initializationPromise p = Some (Rejected e)"
    using rejected_run [OF that, of env events] by auto
  have b: "outcome (step env (Resume c) p) = outcome p @ [(c, Inl e)]"
    if "initializationPromise p = Some (Rejected e)" "map_of (waiting p) c = Some stmt"
    using that by (simp add: resume_caller_def settled_def getInitializedClient_resume_def)
  have c: "db_all env sql params p = (Inl e, p)" "db_get env sql params p = (Inl e, p)"
      "db_run env sql params p = (Inl e, p)" "db_transaction env callback p = (Inl e, p)"
    if "initializationPromise p = Some (Rejected e)"
    using rejected_getInitializedClient [OF that, of env]
    by (simp_all add: db_all_def db_get_def db_run_def db_transaction_def)
  have d: "initializationPromise (step env InitStep q) = Some (Rejected e)"
    if "initializationPromise q = Some Pending" "init_rest q = stmta # rest"
      "fst (execute env stmta (store q)) = Inl e"
    using that by (auto simp: initializeDatabase_step_def client_execute_def split: prod.splits sum.splits)
  have f: "initializationPromise (step env (Call c stmt) q) = Some (Rejected e)"
    if "initializationPromise q = None" "\<not> libsqlClient q" "createClient env = Some e"
    using that by (simp add: Let_def getInitializedClient_enter_def initializeDatabase_start_def)
  show ?thesis
    using a b c d f rejected_getInitializedClient [of p e env] by blast
qed

theorem failed_initialization_is_terminal_witness:
  "initializationPromise failed_process
     = Some (Rejected (Error ''SQLITE_CANTOPEN: unable to open database file''))
   \<and> initializationPromise (run_events broken_env later_events failed_process)
       = Some (Rejected (Error ''SQLITE_CANTOPEN: unable to open database file''))
   \<and> init_calls (run_events broken_env later_events failed_process) = 1
   \<and> outcome (run_events broken_env later_events failed_process)
       = [(1, Inl (Error ''SQLITE_CANTOPEN: unable to open database file'')),
          (2, Inl (Error ''SQLITE_CANTOPEN: unable to open database file'')),
          (3, Inl (Error ''SQLITE_CANTOPEN: unable to open database file''))]
   \<and> outcome (step broken_env (Resume 2) failed_process)
       = [(2, Inl (Error ''SQLITE_CANTOPEN: unable to open database file''))]
   \<and> fst (db_get broken_env ''SELECT 1'' [] failed_process)
       = Inl (Error ''SQLITE_CANTOPEN: unable to open database file'')
   \<and> initializationPromise (step broken_env InitStep pending_process)
       = Some (Rejected (Error ''SQLITE_CANTOPEN: unable to open database file''))
   \<and> initializationPromise (step no_client_env (Call 1 (Text ''BEGIN'')) (fresh_process new_engine))
       = Some (Rejected (Error ''LibsqlError: URL_INVALID''))"
proof -
  have h1: "initializationPromise failed_process
     = Some (Rejected (Error ''SQLITE_CANTOPEN: unable to open database file''))"
    by code_simp
  have h2: "init_calls failed_process = 1"
    by code_simp
  have h3: "outcome (run_events broken_env later_events failed_process)
       = [(1, Inl (Error ''SQLITE_CANTOPEN: unable to open database file'')),
          (2, Inl (Error ''SQLITE_CANTOPEN: unable to open database file'')),
          (3, Inl (Error ''SQLITE_CANTOPEN: unable to open database file''))]"
    by code_simp
  have h4: "map_of (waiting failed_process) 2 = Some (Text ''BEGIN'')"
    by code_simp
  have h5: "outcome failed_process = []"
    by code_simp
  have h6: "initializationPromise pending_process = Some Pending"
    by code_simp
  have h7: "init_rest pending_process = Text sql_create_users # tl (init_statements (adminHashed broken_env))"
    by code_simp
  have h8: "fst (execute broken_env (Text sql_create_users) (store pending_process))
              = Inl (Error ''SQLITE_CANTOPEN: unable to open database file'')"
    by code_simp
  have h9: "initializationPromise (fresh_process new_engine) = None"
      "\<not> libsqlClient (fresh_process new_engine)"
      "createClient no_client_env = Some (Error ''LibsqlError: URL_INVALID'')"
    by code_simp+
  have a: "initializationPromise (run_events broken_env later_events failed_process)
       = Some (Rejected (Error ''SQLITE_CANTOPEN: unable to open database file''))
     \<and> init_calls (run_events broken_env later_events failed_process) = 1
     \<and> outcome (step broken_env (Resume 2) failed_process)
       = [(2, Inl (Error ''SQLITE_CANTOPEN: unable to open database file''))]
     \<and> fst (db_get broken_env ''SELECT 1'' [] failed_process)
       = Inl (Error ''SQLITE_CANTOPEN: unable to open database file'')
     \<and> initializationPromise (step broken_env InitStep pending_process)
       = Some (Rejected (Error ''SQLITE_CANTOPEN: unable to open database file''))"
    using failed_initialization_is_terminal [where p = failed_process
        and e = "Error ''SQLITE_CANTOPEN: unable to open database file''" and env = broken_env
        and events = later_events and sql = "''SELECT 1''" and params = "[]" and c = 2
        and stmt = "Text ''BEGIN''" and callback = "Return (0::nat)" and q = pending_process
        and rest = "tl (init_statements (adminHashed broken_env))"
        and stmta = "Text sql_create_users"] h1 h2 h4 h5 h6 h7 h8
    by simp
  have b: "initializationPromise (step no_client_env (Call 1 (Text ''BEGIN'')) (fresh_process new_engine))
       = Some (Rejected (Error ''LibsqlError: URL_INVALID''))"
    using failed_initialization_is_terminal [where env = no_client_env
        and e = "Error ''LibsqlError: URL_INVALID''" and q = "fresh_process new_engine"
        and c = 1 and stmt = "Text ''BEGIN''" and p = "fresh_process new_engine"
        and callback = "Return (0::nat)"] h9
    by simp
  show ?thesis
    using a b h1 h3 by simp
qed

section \<open>Seeding twice\<close>

text \<open>
  C8. Running \<^verbatim>\<open>initializeDatabase\<close> in a new process against an already-seeded
  store succeeds and leaves the store as it was, whatever the new process's password
  hash: no row is added and none is overwritten. The first process on a new database
  leaves a seeded store, with exactly one row for "admin1" and for each SKU; after a
  second process has run, the store still holds exactly those rows, with the values of
  the first (the first process's password hash).
\<close>

theorem seed_rerun_changes_nothing:
  "(seeded (current s) \<longrightarrow>
      fst (getInitializedClient (sqlite_env other h2) (fresh_process s)) = Inr ()
      \<and> delivered (client_of (sqlite_env other h2) (fresh_process s)) = init_statements h2
      \<and> store (client_of (sqlite_env other h2) (fresh_process s)) = s)
   \<and> seeded (seeded_database h1)
   \<and> store (client_of (sqlite_env other h1) (fresh_process new_engine))
       = \<lparr>current = seeded_database h1, snapshot = None\<rparr>
   \<and> store (client_of (sqlite_env other h2)
              (restart (client_of (sqlite_env other h1) (fresh_process new_engine))))
       = \<lparr>current = seeded_database h1, snapshot = None\<rparr>"
proof -
  have "seeded (current \<lparr>current = seeded_database h1, snapshot = None\<rparr>)"
    by (simp add: seeded_first)
  then have "store (client_of (sqlite_env other h2)
                (fresh_process \<lparr>current = seeded_database h1, snapshot = None\<rparr>))
              = \<lparr>current = seeded_database h1, snapshot = None\<rparr>"
    using seeded_rerun by blast
  then show ?thesis
    using seeded_rerun [of s other h2]
    by (simp add: seeded_first first_run_seeds restart_def)
qed

theorem seed_rerun_changes_nothing_witness:
  "current (store (client_of second_env (restart seeded_process)))
     = seeded_database ''$2b$10$hashOfTheFirstProcess''
   \<and> delivered (client_of second_env (restart seeded_process))
       = init_statements ''$2b$10$hashOfTheSecondProcess''
   \<and> fst (db_all second_env ''SELECT * FROM users WHERE id = ?'' [Str ''admin1'']
            (restart seeded_process))
       = Inr [[(''id'', Str ''admin1''), (''email'', Str ''admin@inventory.com''),
               (''password'', Str ''$2b$10$hashOfTheFirstProcess''), (''name'', Str ''Admin User''),
               (''role'', Str ''admin'')]]
   \<and> fst (db_all second_env ''SELECT * FROM products WHERE sku = ?'' [Str ''SKU001'']
            (restart seeded_process))
       = Inr [[(''id'', Str ''prod1''), (''name'', Str ''Sample Product 1''), (''sku'', Str ''SKU001''),
               (''quantity'', Num 100), (''reorderLevel'', Num 10), (''price'', Num 50),
               (''cost'', Num 30), (''category'', Str ''Electronics'')]]"
proof -
  have h: "seeded (current (store seeded_process))"
    by (simp add: first_run seeded_first)
  have q: "fst (db_all second_env ''SELECT * FROM users WHERE id = ?'' [Str ''admin1'']
            (restart seeded_process))
       = Inr [[(''id'', Str ''admin1''), (''email'', Str ''admin@inventory.com''),
               (''password'', Str ''$2b$10$hashOfTheFirstProcess''), (''name'', Str ''Admin User''),
               (''role'', Str ''admin'')]]"
    by code_simp
  have r: "fst (db_all second_env ''SELECT * FROM products WHERE sku = ?'' [Str ''SKU001'']
            (restart seeded_process))
       = Inr [[(''id'', Str ''prod1''), (''name'', Str ''Sample Product 1''), (''sku'', Str ''SKU001''),
               (''quantity'', Num 100), (''reorderLevel'', Num 10), (''price'', Num 50),
               (''cost'', Num 30), (''category'', Str ''Electronics'')]]"
    by code_simp
  show ?thesis
    using seed_rerun_changes_nothing [of "store seeded_process" unknown_statement
        "''$2b$10$hashOfTheSecondProcess''"] h q r
    by (simp add: second_env_def restart_def first_run)
qed

section \<open>Parameters are bound, never interpolated\<close>

text \<open>
  C9. Each of \<^verbatim>\<open>all\<close>, \<^verbatim>\<open>get\<close> and \<^verbatim>\<open>run\<close>, on the scoped facade and on the
  public one, delivers to the engine exactly one statement, which carries the caller's
  SQL text unchanged and the parameter list as its separate arguments (the public
  operations deliver it only when \<^verbatim>\<open>getInitializedClient\<close> succeeded, after whatever
  initialization itself delivered). The texts delivered are the same whatever the
  parameter values.
\<close>

theorem parameters_bound_not_interpolated:
  "delivered (snd (txDb_all env sql params p)) = delivered p @ [Stmt sql params]
   \<and> delivered (snd (txDb_get env sql params p)) = delivered p @ [Stmt sql params]
   \<and> delivered (snd (txDb_run env sql params p)) = delivered p @ [Stmt sql params]
   \<and> delivered (snd (db_all env sql params p0))
       = delivered (client_of env p0)
         @ (if fst (getInitializedClient env p0) = Inr () then [Stmt sql params] else [])
   \<and> delivered (snd (db_get env sql params p0))
       = delivered (client_of env p0)
         @ (if fst (getInitializedClient env p0) = Inr () then [Stmt sql params] else [])
   \<and> delivered (snd (db_run env sql params p0))
       = delivered (client_of env p0)
         @ (if fst (getInitializedClient env p0) = Inr () then [Stmt sql params] else [])
   \<and> stmt_sql (Stmt sql params) = sql
   \<and> stmt_args (Stmt sql params) = params
   \<and> map stmt_sql (delivered (snd (txDb_all env sql params p)))
       = map stmt_sql (delivered (snd (txDb_all env sql params' p)))
   \<and> map stmt_sql (delivered (snd (txDb_get env sql params p)))
       = map stmt_sql (delivered (snd (txDb_get env sql params' p)))
   \<and> map stmt_sql (delivered (snd (txDb_run env sql params p)))
       = map stmt_sql (delivered (snd (txDb_run env sql params' p)))
   \<and> map stmt_sql (delivered (snd (db_all env sql params p0)))
       = map stmt_sql (delivered (snd (db_all env sql params' p0)))
   \<and> map stmt_sql (delivered (snd (db_get env sql params p0)))
       = map stmt_sql (delivered (snd (db_get env sql params' p0)))
   \<and> map stmt_sql (delivered (snd (db_run env sql params p0)))
       = map stmt_sql (delivered (snd (db_run env sql params' p0)))"
  by (simp add: db_ops_delivered txDb_ops_delivered)

theorem parameters_bound_not_interpolated_witness:
  "delivered (snd (db_run demo_env ''DELETE FROM users WHERE id = ?'' [Str ''x; DROP TABLE users'']
       (fresh_process new_engine)))
     = init_statements (adminHashed demo_env)
       @ [Stmt ''DELETE FROM users WHERE id = ?'' [Str ''x; DROP TABLE users'']]"
proof -
  have h1: "fst (getInitializedClient demo_env (fresh_process new_engine)) = Inr ()"
    by code_simp
  have h2: "delivered (client_of demo_env (fresh_process new_engine))
              = init_statements (adminHashed demo_env)"
    by code_simp
  show ?thesis
    using parameters_bound_not_interpolated [of demo_env "''DELETE FROM users WHERE id = ?''"
        "[Str ''x; DROP TABLE users'']" _ "fresh_process new_engine"] h1 h2
    by simp
qed

section \<open>A nested-transaction error that leaves the body\<close>




end
